theory Spec2Isabelle
  imports Complex_Main
begin

section \<open>Python values\<close>

text \<open>
  The coordinator of \<^verbatim>\<open>src/ai/agents/meta_coordinator.py\<close> works on
  \<^verbatim>\<open>Dict[str, Any]\<close> values throughout: the routing plan is whatever
  \<^verbatim>\<open>json.loads\<close> returned, an agent's result and a workflow step are dictionaries
  read with \<^verbatim>\<open>.get\<close> and \<^verbatim>\<open>[...]\<close>. The embedding keeps that dynamic typing:
  \<open>pyval\<close> holds the values JSON and the dict literals of the source are made of, and
  every operation that raises in Python returns \<open>Inl\<close> of the exception here.
  A dictionary is an association list in insertion order. A float is the rational it
  denotes (NaN and the infinities are left out); the two computations the source does on
  floats are parameters of the environment.
\<close>

datatype pyval =
    PNone
  | PBool bool
  | PInt int
  | PFloat rat
  | PStr string
  | PList "pyval list"
  | PDict "(pyval \<times> pyval) list"

type_synonym pydict = "(pyval \<times> pyval) list"

datatype error =
    AttributeError
  | TypeError
  | KeyError
  | IndexError
  | Raised string

text \<open>\<^verbatim>\<open>bool(v)\<close>, as \<^verbatim>\<open>if v:\<close> and \<^verbatim>\<open>a or b\<close> use it.\<close>

fun truthy :: "pyval \<Rightarrow> bool" where
  "truthy PNone = False"
| "truthy (PBool b) = b"
| "truthy (PInt n) = (n \<noteq> 0)"
| "truthy (PFloat q) = (q \<noteq> 0)"
| "truthy (PStr s) = (s \<noteq> [])"
| "truthy (PList xs) = (xs \<noteq> [])"
| "truthy (PDict kvs) = (kvs \<noteq> [])"

text \<open>Lists and dicts are unhashable: using one as a dictionary key raises TypeError.\<close>

fun hashable :: "pyval \<Rightarrow> bool" where
  "hashable (PList xs) = False"
| "hashable (PDict kvs) = False"
| "hashable v = True"

text \<open>
  Dictionary keys are compared with \<^verbatim>\<open>==\<close>: \<^verbatim>\<open>True == 1 == 1.0\<close>, so a bool
  and an integral float stand for the integer they equal.
\<close>

fun key_norm :: "pyval \<Rightarrow> pyval" where
  "key_norm (PBool b) = PInt (if b then 1 else 0)"
| "key_norm (PFloat q) = (if q = of_int \<lfloor>q\<rfloor> then PInt \<lfloor>q\<rfloor> else PFloat q)"
| "key_norm v = v"

definition key_eq :: "pyval \<Rightarrow> pyval \<Rightarrow> bool" where
  "key_eq a b = (key_norm a = key_norm b)"

fun dict_lookup :: "pydict \<Rightarrow> pyval \<Rightarrow> pyval option" where
  "dict_lookup [] k = None"
| "dict_lookup ((k', v) # kvs) k = (if key_eq k' k then Some v else dict_lookup kvs k)"

text \<open>\<^verbatim>\<open>d[k] = v\<close>: an existing key keeps its place (and its key object), a new one goes last.\<close>

fun dict_set :: "pydict \<Rightarrow> pyval \<Rightarrow> pyval \<Rightarrow> pydict" where
  "dict_set [] k v = [(k, v)]"
| "dict_set ((k', v') # kvs) k v =
     (if key_eq k' k then (k', v) # kvs else (k', v') # dict_set kvs k v)"

text \<open>\<^verbatim>\<open>d.update(other)\<close> for a dict \<open>other\<close>: its items are stored in their order.\<close>

fun dict_update :: "pydict \<Rightarrow> pydict \<Rightarrow> pydict" where
  "dict_update d [] = d"
| "dict_update d ((k, v) # kvs) = dict_update (dict_set d k v) kvs"

text \<open>\<^verbatim>\<open>d.get(k, default)\<close> on a dict.\<close>

definition dict_get :: "pydict \<Rightarrow> pyval \<Rightarrow> pyval \<Rightarrow> pyval" where
  "dict_get d k dflt = (case dict_lookup d k of Some v \<Rightarrow> v | None \<Rightarrow> dflt)"

text \<open>
  \<^verbatim>\<open>x.get(k, default)\<close> on any value: only a dict has the method (AttributeError
  otherwise), and the key is hashed (TypeError for a list or a dict).
\<close>

definition py_get :: "pyval \<Rightarrow> pyval \<Rightarrow> pyval \<Rightarrow> error + pyval" where
  "py_get x k dflt =
     (case x of
        PDict d \<Rightarrow> if hashable k then Inr (dict_get d k dflt) else Inl TypeError
      | _ \<Rightarrow> Inl AttributeError)"

text \<open>Sequence indexing: a negative index counts from the end, out of range is IndexError.\<close>

definition seq_index :: "'a list \<Rightarrow> int \<Rightarrow> error + 'a" where
  "seq_index xs i =
     (if 0 \<le> i \<and> i < int (length xs) then Inr (xs ! nat i)
      else if i < 0 \<and> - int (length xs) \<le> i then Inr (xs ! nat (int (length xs) + i))
      else Inl IndexError)"

fun as_index :: "pyval \<Rightarrow> int option" where
  "as_index (PInt i) = Some i"
| "as_index (PBool b) = Some (if b then 1 else 0)"
| "as_index v = None"

text \<open>\<^verbatim>\<open>x[k]\<close> on any value.\<close>

definition py_getitem :: "pyval \<Rightarrow> pyval \<Rightarrow> error + pyval" where
  "py_getitem x k =
     (case x of
        PDict d \<Rightarrow>
          if hashable k
          then (case dict_lookup d k of Some v \<Rightarrow> Inr v | None \<Rightarrow> Inl KeyError)
          else Inl TypeError
      | PList xs \<Rightarrow>
          (case as_index k of Some i \<Rightarrow> seq_index xs i | None \<Rightarrow> Inl TypeError)
      | PStr s \<Rightarrow>
          (case as_index k of
             Some i \<Rightarrow> (case seq_index s i of Inr c \<Rightarrow> Inr (PStr [c]) | Inl e \<Rightarrow> Inl e)
           | None \<Rightarrow> Inl TypeError)
      | _ \<Rightarrow> Inl TypeError)"

text \<open>\<^verbatim>\<open>d[k]\<close> on a dict.\<close>

definition dict_item :: "pydict \<Rightarrow> pyval \<Rightarrow> error + pyval" where
  "dict_item d k = py_getitem (PDict d) k"

text \<open>\<^verbatim>\<open>for x in v\<close>: the elements of a list, the characters of a string, the keys of a dict.\<close>

fun py_iter :: "pyval \<Rightarrow> error + pyval list" where
  "py_iter (PList xs) = Inr xs"
| "py_iter (PStr s) = Inr (map (\<lambda>c. PStr [c]) s)"
| "py_iter (PDict kvs) = Inr (map fst kvs)"
| "py_iter v = Inl TypeError"

definition opt_str :: "string option \<Rightarrow> pyval" where
  "opt_str s = (case s of None \<Rightarrow> PNone | Some t \<Rightarrow> PStr t)"

definition opt_dict :: "pydict option \<Rightarrow> pyval" where
  "opt_dict d = (case d of None \<Rightarrow> PNone | Some kvs \<Rightarrow> PDict kvs)"

text \<open>\<^verbatim>\<open>sep.join(parts)\<close>.\<close>

fun join :: "string \<Rightarrow> string list \<Rightarrow> string" where
  "join sep [] = []"
| "join sep [x] = x"
| "join sep (x # y # ys) = x @ sep @ join sep (y # ys)"

definition nl :: string where
  "nl = [CHR 0x0A]"

definition quote :: string where
  "quote = [CHR 0x27]"

section \<open>The world around the coordinator\<close>

text \<open>
  The text-generation backend, the agents, the clock and the interpreter's own functions
  (\<^verbatim>\<open>json.loads\<close>, \<^verbatim>\<open>json.dumps\<close>, \<^verbatim>\<open>str\<close>) are not code of the coordinator. They
  are fields of the environment \<open>env\<close>; every theorem below holds for every environment.
  An answer of a collaborator may depend on everything that happened before: it is a
  function of the trace, the list of the events so far. The trace also records each entry
  into and each return from \<^verbatim>\<open>_call_agent\<close>, with the arguments and the result, as a
  recording double in the method's place would.
\<close>

datatype caller = Router | Synthesizer

record llm_request =
  messages :: pyval
  model_name :: string
  temperature :: rat
  max_tokens :: "int option"

record chat_request =
  chat_messages :: pyval
  chat_session_id :: "string option"
  chat_user_id :: "string option"
  chat_metadata :: "pydict option"

record guidance_request =
  experiment_type :: pyval
  guidance_step :: pyval
  guidance_session_id :: pyval
  guidance_user_id :: string
  guidance_data :: pydict

datatype event =
    LlmCall caller llm_request "error + pyval"
  | AgentCalled pyval pyval "string option" "string option" "pydict option"
  | AgentReturned pyval "error + pyval"
  | ChatCall string chat_request "error + pyval"
  | GuidanceCall string guidance_request "error + pyval"
  | TimeRead rat
  | UtcRead string

record env =
  self_agents :: "string list"
  self_model :: string
  self_system_prompt :: string
  llm_chat_completion :: "event list \<Rightarrow> llm_request \<Rightarrow> error + pyval"
  agent_chat :: "event list \<Rightarrow> string \<Rightarrow> chat_request \<Rightarrow> error + pyval"
  agent_provide_guidance :: "event list \<Rightarrow> string \<Rightarrow> guidance_request \<Rightarrow> error + pyval"
  json_loads :: "string \<Rightarrow> pyval option"
  json_dumps :: "pydict \<Rightarrow> string"
  py_format :: "pyval \<Rightarrow> string"
  exc_str :: "error \<Rightarrow> string"
  time_time :: "event list \<Rightarrow> rat"
  utcnow_isoformat :: "event list \<Rightarrow> string"
  elapsed_ms :: "rat \<Rightarrow> rat \<Rightarrow> int"

text \<open>
  \<open>self_agents\<close> are the keys of \<^verbatim>\<open>self.agents\<close> in their order; \<open>json_loads\<close> is
  \<open>None\<close> where \<^verbatim>\<open>json.loads\<close> raises JSONDecodeError; \<open>elapsed_ms t0 t1\<close> is
  \<^verbatim>\<open>int((t1 - t0) * 1000)\<close> in float arithmetic; \<open>exc_str\<close> is \<^verbatim>\<open>str(e)\<close>.
  The mutable state is the trace and the counter \<^verbatim>\<open>self.total_coordinations\<close>.
\<close>

record state =
  trace :: "event list"
  total_coordinations :: int

type_synonym 'a io = "state \<Rightarrow> (error + 'a) \<times> state"

definition io_return :: "'a \<Rightarrow> 'a io" where
  "io_return x = (\<lambda>st. (Inr x, st))"

definition io_raise :: "error \<Rightarrow> 'a io" where
  "io_raise e = (\<lambda>st. (Inl e, st))"

definition io_lift :: "error + 'a \<Rightarrow> 'a io" where
  "io_lift r = (\<lambda>st. (r, st))"

definition io_bind :: "'a io \<Rightarrow> ('a \<Rightarrow> 'b io) \<Rightarrow> 'b io" where
  "io_bind m f = (\<lambda>st. case m st of (Inl e, st') \<Rightarrow> (Inl e, st') | (Inr x, st') \<Rightarrow> f x st')"

text \<open>\<^verbatim>\<open>try: m  except Exception as e: h e\<close>.\<close>

definition io_try :: "'a io \<Rightarrow> (error \<Rightarrow> 'a io) \<Rightarrow> 'a io" where
  "io_try m h = (\<lambda>st. case m st of (Inl e, st') \<Rightarrow> h e st' | (Inr x, st') \<Rightarrow> (Inr x, st'))"

definition emit :: "event \<Rightarrow> state \<Rightarrow> state" where
  "emit ev st = st\<lparr>trace := trace st @ [ev]\<rparr>"

definition chat_completion :: "env \<Rightarrow> caller \<Rightarrow> llm_request \<Rightarrow> pyval io" where
  "chat_completion env who req =
     (\<lambda>st. let r = llm_chat_completion env (trace st) req in (r, emit (LlmCall who req r) st))"

definition chat :: "env \<Rightarrow> string \<Rightarrow> chat_request \<Rightarrow> pyval io" where
  "chat env agent req =
     (\<lambda>st. let r = agent_chat env (trace st) agent req in (r, emit (ChatCall agent req r) st))"

definition provide_guidance :: "env \<Rightarrow> string \<Rightarrow> guidance_request \<Rightarrow> pyval io" where
  "provide_guidance env agent req =
     (\<lambda>st. let r = agent_provide_guidance env (trace st) agent req
           in (r, emit (GuidanceCall agent req r) st))"

definition read_time :: "env \<Rightarrow> rat io" where
  "read_time env = (\<lambda>st. let t = time_time env (trace st) in (Inr t, emit (TimeRead t) st))"

definition read_utcnow :: "env \<Rightarrow> string io" where
  "read_utcnow env =
     (\<lambda>st. let s = utcnow_isoformat env (trace st) in (Inr s, emit (UtcRead s) st))"

section \<open>route_task\<close>

definition routing_prompt :: "env \<Rightarrow> string \<Rightarrow> pydict option \<Rightarrow> string" where
  "routing_prompt env task ctx =
     ''Analyze this task and determine which agent(s) should handle it:'' @ nl @ nl @
     ''TASK: '' @ task @ nl @ nl @
     ''CONTEXT: '' @
       (case ctx of None \<Rightarrow> ''None'' | Some d \<Rightarrow> if d \<noteq> [] then json_dumps env d else ''None'') @
       nl @ nl @
     ''Available agents: '' @ join '', '' (self_agents env) @ nl @ nl @
     ''Determine the best routing strategy and specific tasks for each agent.''"

definition default_plan :: "string \<Rightarrow> pyval" where
  "default_plan prompt =
     PDict [(PStr ''strategy'', PStr ''single''),
            (PStr ''agents'', PList [PStr ''experiment_conductor'']),
            (PStr ''routing'', PDict [(PStr ''experiment_conductor'', PStr prompt)])]"

definition routing_request :: "env \<Rightarrow> string \<Rightarrow> llm_request" where
  "routing_request env prompt =
     \<lparr>messages = PList
        [PDict [(PStr ''role'', PStr ''system''), (PStr ''content'', PStr (self_system_prompt env))],
         PDict [(PStr ''role'', PStr ''user''), (PStr ''content'', PStr prompt)]],
      model_name = self_model env,
      temperature = 1 / 5,
      max_tokens = None\<rparr>"

text \<open>
  \<^verbatim>\<open>json.loads\<close> takes a string: any other content raises TypeError, which the
  \<^verbatim>\<open>except json.JSONDecodeError\<close> does not catch.
\<close>

definition decode_plan :: "env \<Rightarrow> string \<Rightarrow> pyval \<Rightarrow> pyval io" where
  "decode_plan env prompt content =
     (case content of
        PStr s \<Rightarrow>
          (case json_loads env s of
             Some plan \<Rightarrow> io_return plan
           | None \<Rightarrow> io_return (default_plan prompt))
      | _ \<Rightarrow> io_raise TypeError)"

definition route_task :: "env \<Rightarrow> string \<Rightarrow> string option \<Rightarrow> pydict option \<Rightarrow> pyval io" where
  "route_task env task user_id ctx =
     (let prompt = routing_prompt env task ctx in
      io_bind (chat_completion env Router (routing_request env prompt)) (\<lambda>response.
      io_bind (io_lift (py_getitem response (PStr ''content''))) (\<lambda>content.
      decode_plan env prompt content)))"

section \<open>_call_agent\<close>

text \<open>
  \<^verbatim>\<open>agent_name not in self.agents\<close> hashes the name; the registry's keys are strings, so
  no other value is among them. \<open>fmt\<close> is a value inside an f-string: a string stands for
  itself, any other value is formatted by the interpreter.
\<close>

definition in_registry :: "env \<Rightarrow> pyval \<Rightarrow> bool" where
  "in_registry env agent_name =
     (case agent_name of PStr s \<Rightarrow> s \<in> set (self_agents env) | _ \<Rightarrow> False)"

definition fmt :: "env \<Rightarrow> pyval \<Rightarrow> string" where
  "fmt env v = (case v of PStr s \<Rightarrow> s | _ \<Rightarrow> py_format env v)"

definition agent_not_found :: "env \<Rightarrow> pyval \<Rightarrow> pyval" where
  "agent_not_found env agent_name =
     PDict [(PStr ''response'', PStr (''Agent '' @ quote @ fmt env agent_name @ quote @ '' not available'')),
            (PStr ''error'', PStr ''agent_not_found'')]"

definition call_agent_body ::
  "env \<Rightarrow> pyval \<Rightarrow> pyval \<Rightarrow> string option \<Rightarrow> string option \<Rightarrow> pydict option \<Rightarrow> pyval io" where
  "call_agent_body env agent_name task user_id session_id ctx =
     (if \<not> hashable agent_name then io_raise TypeError
      else if \<not> in_registry env agent_name then io_return (agent_not_found env agent_name)
      else if agent_name = PStr ''experiment_conductor'' then
        chat env ''experiment_conductor''
          \<lparr>chat_messages = PList [PDict [(PStr ''role'', PStr ''user''), (PStr ''content'', task)]],
           chat_session_id = session_id,
           chat_user_id = user_id,
           chat_metadata = ctx\<rparr>
      else if agent_name = PStr ''data_analyst'' then
        io_return (PDict [(PStr ''response'', PStr ''DataAnalyst integration pending for this task type''),
                          (PStr ''agent'', agent_name)])
      else
        io_return (PDict [(PStr ''response'', PStr (''Unknown agent interface: '' @ fmt env agent_name)),
                          (PStr ''error'', PStr ''unknown_interface'')]))"

definition call_agent ::
  "env \<Rightarrow> pyval \<Rightarrow> pyval \<Rightarrow> string option \<Rightarrow> string option \<Rightarrow> pydict option \<Rightarrow> pyval io" where
  "call_agent env agent_name task user_id session_id ctx =
     (\<lambda>st. case call_agent_body env agent_name task user_id session_id ctx
                 (emit (AgentCalled agent_name task user_id session_id ctx) st) of
             (r, st') \<Rightarrow> (r, emit (AgentReturned agent_name r) st'))"

section \<open>execute_task\<close>

definition apology :: string where
  "apology = ''I encountered an error coordinating this task. Please try again.''"

definition default_agent :: pyval where
  "default_agent = PStr ''experiment_conductor''"

text \<open>The branch \<^verbatim>\<open>strategy == "single"\<close>.\<close>

definition run_single ::
  "env \<Rightarrow> string \<Rightarrow> string option \<Rightarrow> string option \<Rightarrow> pydict option \<Rightarrow> pyval \<Rightarrow> pyval \<Rightarrow> pydict io" where
  "run_single env task user_id session_id ctx agents_to_use agent_tasks =
     io_bind (if truthy agents_to_use then io_lift (py_getitem agents_to_use (PInt 0))
              else io_return default_agent) (\<lambda>agent_name.
     io_bind (io_lift (py_get agent_tasks agent_name (PStr task))) (\<lambda>agent_task.
     io_bind (call_agent env agent_name agent_task user_id session_id ctx) (\<lambda>result.
     io_return (dict_set [] agent_name result))))"

text \<open>
  The branch \<^verbatim>\<open>strategy == "parallel"\<close>. The first loop looks every sub-task up and
  creates the coroutines; nothing runs yet.
\<close>

fun agent_task_list :: "pyval \<Rightarrow> string \<Rightarrow> pyval list \<Rightarrow> error + pyval list" where
  "agent_task_list agent_tasks task [] = Inr []"
| "agent_task_list agent_tasks task (agent_name # rest) =
     (case py_get agent_tasks agent_name (PStr task) of
        Inl e \<Rightarrow> Inl e
      | Inr agent_task \<Rightarrow>
          (case agent_task_list agent_tasks task rest of
             Inl e \<Rightarrow> Inl e
           | Inr ts \<Rightarrow> Inr (agent_task # ts)))"

text \<open>
  \<^verbatim>\<open>asyncio.gather\<close> makes a task of every coroutine, and the event loop gives each task
  its first turn in the order of the arguments before the awaiting \<open>execute_task\<close> is
  resumed. A turn runs \<^verbatim>\<open>_call_agent\<close> up to its first suspension. The only \<^verbatim>\<open>await\<close>
  of \<^verbatim>\<open>_call_agent\<close> is the conductor's \<^verbatim>\<open>chat\<close>: an invocation that reaches it
  \<open>suspends\<close> there, waiting for the answer, and stays pending while the next invocation
  is entered; every other invocation returns or raises within its first turn.
\<close>

definition suspends :: "env \<Rightarrow> pyval \<Rightarrow> bool" where
  "suspends env agent_name = (in_registry env agent_name \<and> agent_name = PStr ''experiment_conductor'')"

datatype slot = Done "error + pyval" | Pending pyval pyval

text \<open>The rest of a pending invocation: the body from the \<^verbatim>\<open>await\<close> on, and the return.\<close>

definition resume_agent ::
  "env \<Rightarrow> pyval \<Rightarrow> pyval \<Rightarrow> string option \<Rightarrow> string option \<Rightarrow> pydict option \<Rightarrow> pyval io" where
  "resume_agent env agent_name task user_id session_id ctx =
     (\<lambda>st. case call_agent_body env agent_name task user_id session_id ctx st of
             (r, st') \<Rightarrow> (r, emit (AgentReturned agent_name r) st'))"

text \<open>The first turns: every invocation is entered, in the order of the arguments.\<close>

fun start_all ::
  "env \<Rightarrow> string option \<Rightarrow> string option \<Rightarrow> pydict option \<Rightarrow> (pyval \<times> pyval) list \<Rightarrow> state
     \<Rightarrow> slot list \<times> state" where
  "start_all env user_id session_id ctx [] st = ([], st)"
| "start_all env user_id session_id ctx ((agent_name, agent_task) # rest) st =
     (if suspends env agent_name then
        (case start_all env user_id session_id ctx rest
                (emit (AgentCalled agent_name agent_task user_id session_id ctx) st) of
           (slots, st') \<Rightarrow> (Pending agent_name agent_task # slots, st'))
      else
        (case call_agent env agent_name agent_task user_id session_id ctx st of
           (r, st1) \<Rightarrow>
             (case start_all env user_id session_id ctx rest st1 of
                (slots, st') \<Rightarrow> (Done r # slots, st'))))"

text \<open>
  The first exception raised is propagated to the awaiting \<open>execute_task\<close> at once; the
  other invocations are not cancelled, they go on after \<open>gather\<close> has raised.
\<close>

fun first_fault :: "slot list \<Rightarrow> error option" where
  "first_fault [] = None"
| "first_fault (Done (Inl e) # slots) = Some e"
| "first_fault (slot # slots) = first_fault slots"

text \<open>
  The order in which the pending invocations get their answers is the scheduling of the
  event loop and of the network, not code of the repository: \<open>finish_all\<close> lets them
  finish in the order of the arguments, one of the schedules the loop admits, and collects
  the results in that order, as \<^verbatim>\<open>gather\<close> does whatever the schedule.
\<close>

fun finish_all ::
  "env \<Rightarrow> string option \<Rightarrow> string option \<Rightarrow> pydict option \<Rightarrow> slot list \<Rightarrow> pyval list io" where
  "finish_all env user_id session_id ctx [] st = (Inr [], st)"
| "finish_all env user_id session_id ctx (Done r # slots) st =
     (case r of
        Inl e \<Rightarrow> (Inl e, st)
      | Inr result \<Rightarrow>
          (case finish_all env user_id session_id ctx slots st of
             (Inl e, st') \<Rightarrow> (Inl e, st')
           | (Inr results, st') \<Rightarrow> (Inr (result # results), st')))"
| "finish_all env user_id session_id ctx (Pending agent_name agent_task # slots) st =
     (case resume_agent env agent_name agent_task user_id session_id ctx st of
        (Inl e, st') \<Rightarrow> (Inl e, st')
      | (Inr result, st') \<Rightarrow>
          (case finish_all env user_id session_id ctx slots st' of
             (Inl e, st'') \<Rightarrow> (Inl e, st'')
           | (Inr results, st'') \<Rightarrow> (Inr (result # results), st'')))"

definition gather ::
  "env \<Rightarrow> string option \<Rightarrow> string option \<Rightarrow> pydict option \<Rightarrow> (pyval \<times> pyval) list \<Rightarrow> pyval list io" where
  "gather env user_id session_id ctx calls =
     (\<lambda>st. case start_all env user_id session_id ctx calls st of
             (slots, st') \<Rightarrow>
               (case first_fault slots of
                  Some e \<Rightarrow> (Inl e, st')
                | None \<Rightarrow> finish_all env user_id session_id ctx slots st'))"

text \<open>\<^verbatim>\<open>for agent_name, result in zip(...): agent_results[agent_name] = result\<close>.\<close>

fun store_results :: "pydict \<Rightarrow> (pyval \<times> pyval) list \<Rightarrow> pydict" where
  "store_results agent_results [] = agent_results"
| "store_results agent_results ((agent_name, result) # rest) =
     store_results (dict_set agent_results agent_name result) rest"

definition run_parallel ::
  "env \<Rightarrow> string \<Rightarrow> string option \<Rightarrow> string option \<Rightarrow> pydict option \<Rightarrow> pyval \<Rightarrow> pyval \<Rightarrow> pydict io" where
  "run_parallel env task user_id session_id ctx agents_to_use agent_tasks =
     io_bind (io_lift (py_iter agents_to_use)) (\<lambda>names.
     io_bind (io_lift (agent_task_list agent_tasks task names)) (\<lambda>tasks.
     io_bind (gather env user_id session_id ctx (zip names tasks)) (\<lambda>results.
     io_return (store_results [] (zip names results)))))"

text \<open>
  The branch \<^verbatim>\<open>strategy == "sequential"\<close>. \<^verbatim>\<open>{**(context or {})}\<close> is a new dict with
  the caller's items; the previous output is stored in that copy.
\<close>

definition enhanced_context :: "pydict option \<Rightarrow> pyval \<Rightarrow> pydict" where
  "enhanced_context ctx previous_output =
     (let enhanced = (case ctx of None \<Rightarrow> [] | Some d \<Rightarrow> d)
      in if truthy previous_output
         then dict_set enhanced (PStr ''previous_agent_output'') previous_output
         else enhanced)"

definition sequential_step ::
  "env \<Rightarrow> string \<Rightarrow> string option \<Rightarrow> string option \<Rightarrow> pydict option \<Rightarrow> pyval \<Rightarrow> pyval
     \<Rightarrow> pyval \<times> pydict \<Rightarrow> (pyval \<times> pydict) io" where
  "sequential_step env task user_id session_id ctx agent_tasks agent_name acc =
     (case acc of (previous_output, agent_results) \<Rightarrow>
        io_bind (io_lift (py_get agent_tasks agent_name (PStr task))) (\<lambda>agent_task.
        io_bind (call_agent env agent_name agent_task user_id session_id
                   (Some (enhanced_context ctx previous_output))) (\<lambda>result.
        io_bind (io_lift (py_get result (PStr ''response'') (PStr ''''))) (\<lambda>output.
        io_return (output, dict_set agent_results agent_name result)))))"

fun sequential_loop ::
  "env \<Rightarrow> string \<Rightarrow> string option \<Rightarrow> string option \<Rightarrow> pydict option \<Rightarrow> pyval \<Rightarrow> pyval list
     \<Rightarrow> pyval \<times> pydict \<Rightarrow> (pyval \<times> pydict) io" where
  "sequential_loop env task user_id session_id ctx agent_tasks [] acc st = (Inr acc, st)"
| "sequential_loop env task user_id session_id ctx agent_tasks (agent_name # rest) acc st =
     (case sequential_step env task user_id session_id ctx agent_tasks agent_name acc st of
        (Inl e, st') \<Rightarrow> (Inl e, st')
      | (Inr acc', st') \<Rightarrow> sequential_loop env task user_id session_id ctx agent_tasks rest acc' st')"

definition run_sequential ::
  "env \<Rightarrow> string \<Rightarrow> string option \<Rightarrow> string option \<Rightarrow> pydict option \<Rightarrow> pyval \<Rightarrow> pyval \<Rightarrow> pydict io" where
  "run_sequential env task user_id session_id ctx agents_to_use agent_tasks =
     io_bind (io_lift (py_iter agents_to_use)) (\<lambda>names.
     io_bind (sequential_loop env task user_id session_id ctx agent_tasks names (PNone, [])) (\<lambda>acc.
     io_return (snd acc)))"

definition run_strategy ::
  "env \<Rightarrow> string \<Rightarrow> string option \<Rightarrow> string option \<Rightarrow> pydict option \<Rightarrow> pyval \<Rightarrow> pyval \<Rightarrow> pyval
     \<Rightarrow> pydict io" where
  "run_strategy env task user_id session_id ctx strategy agents_to_use agent_tasks =
     (if strategy = PStr ''single''
        then run_single env task user_id session_id ctx agents_to_use agent_tasks
      else if strategy = PStr ''parallel''
        then run_parallel env task user_id session_id ctx agents_to_use agent_tasks
      else if strategy = PStr ''sequential''
        then run_sequential env task user_id session_id ctx agents_to_use agent_tasks
      else io_return [])"

text \<open>\<^verbatim>\<open>_synthesize_results\<close>: one labelled line per entry, one call of the backend.\<close>

fun response_lines :: "env \<Rightarrow> pydict \<Rightarrow> error + string list" where
  "response_lines env [] = Inr []"
| "response_lines env ((agent_name, result) # rest) =
     (case py_get result (PStr ''response'') (PStr '''') of
        Inl e \<Rightarrow> Inl e
      | Inr r \<Rightarrow>
          (case response_lines env rest of
             Inl e \<Rightarrow> Inl e
           | Inr ls \<Rightarrow> Inr ((''**'' @ fmt env agent_name @ ''**: '' @ fmt env r) # ls)))"

definition synthesis_prompt :: "string \<Rightarrow> string \<Rightarrow> string" where
  "synthesis_prompt original_task agent_responses =
     ''Synthesize these agent responses into a coherent, helpful answer:'' @ nl @ nl @
     ''ORIGINAL TASK: '' @ original_task @ nl @ nl @
     ''AGENT RESPONSES:'' @ nl @
     agent_responses @ nl @ nl @
     ''Create a unified response that:'' @ nl @
     ''1. Addresses the original task completely'' @ nl @
     ''2. Integrates insights from all agents'' @ nl @
     ''3. Maintains scientific accuracy'' @ nl @
     ''4. Is clear and concise'' @ nl @ nl @
     ''Return only the synthesized response, no meta-commentary.''"

definition synthesis_request :: "env \<Rightarrow> string \<Rightarrow> llm_request" where
  "synthesis_request env prompt =
     \<lparr>messages = PList [PDict [(PStr ''role'', PStr ''user''), (PStr ''content'', PStr prompt)]],
      model_name = self_model env,
      temperature = 1 / 2,
      max_tokens = Some 800\<rparr>"

definition synthesize_results :: "env \<Rightarrow> string \<Rightarrow> pydict \<Rightarrow> pydict option \<Rightarrow> pyval io" where
  "synthesize_results env original_task agent_results ctx =
     io_bind (io_lift (response_lines env agent_results)) (\<lambda>ls.
     io_bind (chat_completion env Synthesizer
                (synthesis_request env (synthesis_prompt original_task (join (nl @ nl) ls)))) (\<lambda>response.
     io_lift (py_getitem response (PStr ''content''))))"

text \<open>
  Lines 202 to 212: synthesis when \<^verbatim>\<open>len(agent_results) > 1\<close>, otherwise the response
  of the entry under the first key; \<^verbatim>\<open>list(agent_results.keys())[0]\<close> raises IndexError
  on the empty dict.
\<close>

definition final_response :: "env \<Rightarrow> string \<Rightarrow> pydict option \<Rightarrow> pydict \<Rightarrow> pyval io" where
  "final_response env task ctx agent_results =
     (if length agent_results > 1 then synthesize_results env task agent_results ctx
      else
        io_bind (io_lift (seq_index (map fst agent_results) 0)) (\<lambda>agent_name.
        io_bind (io_lift (dict_item agent_results agent_name)) (\<lambda>result.
        io_lift (py_get result (PStr ''response'') (PStr '''')))))"

definition count_coordination :: "unit io" where
  "count_coordination = (\<lambda>st. (Inr (), st\<lparr>total_coordinations := total_coordinations st + 1\<rparr>))"

text \<open>The body of the \<^verbatim>\<open>try\<close> of \<^verbatim>\<open>execute_task\<close>.\<close>

definition coordinate ::
  "env \<Rightarrow> string \<Rightarrow> string option \<Rightarrow> string option \<Rightarrow> pydict option \<Rightarrow> rat \<Rightarrow> pydict io" where
  "coordinate env task user_id session_id ctx start_time =
     io_bind (route_task env task user_id ctx) (\<lambda>routing_plan.
     io_bind (io_lift (py_get routing_plan (PStr ''strategy'') (PStr ''single''))) (\<lambda>strategy.
     io_bind (io_lift (py_get routing_plan (PStr ''agents'') (PList []))) (\<lambda>agents_to_use.
     io_bind (io_lift (py_get routing_plan (PStr ''routing'') (PDict []))) (\<lambda>agent_tasks.
     io_bind (run_strategy env task user_id session_id ctx strategy agents_to_use agent_tasks)
       (\<lambda>agent_results.
     io_bind (final_response env task ctx agent_results) (\<lambda>response.
     io_bind count_coordination (\<lambda>_.
     io_bind (read_time env) (\<lambda>now.
     io_bind (read_utcnow env) (\<lambda>stamp.
     io_return
       [(PStr ''response'', response),
        (PStr ''strategy'', strategy),
        (PStr ''agents_used'', agents_to_use),
        (PStr ''agent_results'', PDict agent_results),
        (PStr ''duration_ms'', PInt (elapsed_ms env start_time now)),
        (PStr ''coordinated_at'', PStr stamp)])))))))))"

definition error_outcome :: "env \<Rightarrow> error \<Rightarrow> pydict" where
  "error_outcome env e =
     [(PStr ''response'', PStr apology),
      (PStr ''error'', PStr (exc_str env e)),
      (PStr ''strategy'', PStr ''error'')]"

definition execute_task ::
  "env \<Rightarrow> string \<Rightarrow> string option \<Rightarrow> string option \<Rightarrow> pydict option \<Rightarrow> pydict io" where
  "execute_task env task user_id session_id ctx =
     io_bind (read_time env) (\<lambda>start_time.
     io_try (coordinate env task user_id session_id ctx start_time)
       (\<lambda>e. io_return (error_outcome env e)))"

section \<open>execute_workflow\<close>

text \<open>The template the source returns for every identifier.\<close>

definition load_workflow_template :: "string \<Rightarrow> pydict list" where
  "load_workflow_template template_id =
     [[(PStr ''order'', PInt 0),
       (PStr ''stepType'', PStr ''participant_guidance''),
       (PStr ''name'', PStr ''Introduction''),
       (PStr ''agentId'', PStr ''experiment_conductor''),
       (PStr ''config'', PDict [])]]"

subsection \<open>The step handlers\<close>

definition execute_target_generation :: "env \<Rightarrow> pydict \<Rightarrow> pydict \<Rightarrow> pydict io" where
  "execute_target_generation env step data =
     io_bind (read_time env) (\<lambda>t.
     io_return
       [(PStr ''status'', PStr ''completed''),
        (PStr ''output_data'',
         PDict [(PStr ''target_hash'', PStr (''mock_hash_'' @ fmt env (PFloat t))),
                (PStr ''target_type'', PStr ''image'')])])"

definition execute_guidance_step :: "env \<Rightarrow> pydict \<Rightarrow> pyval \<Rightarrow> string \<Rightarrow> pydict \<Rightarrow> pydict io" where
  "execute_guidance_step env step agent_id user_id data =
     (if \<not> hashable agent_id then io_raise TypeError
      else
        (case agent_id of
           PStr agent \<Rightarrow>
             if agent \<in> set (self_agents env) then
               io_bind (io_lift (dict_item step (PStr ''order''))) (\<lambda>order.
               io_bind (provide_guidance env agent
                          \<lparr>experiment_type = dict_get data (PStr ''experiment_type'') (PStr ''unknown''),
                           guidance_step = order,
                           guidance_session_id = dict_get data (PStr ''session_id'') (PStr ''''),
                           guidance_user_id = user_id,
                           guidance_data = data\<rparr>) (\<lambda>guidance.
               io_bind (io_lift (py_get guidance (PStr ''message'') (PStr ''''))) (\<lambda>message.
               io_return
                 [(PStr ''status'', PStr ''completed''),
                  (PStr ''guidance'', message),
                  (PStr ''output_data'', guidance)])))
             else io_return [(PStr ''status'', PStr ''agent_not_found'')]
         | _ \<Rightarrow> io_return [(PStr ''status'', PStr ''agent_not_found'')]))"

definition execute_data_capture :: "env \<Rightarrow> pydict \<Rightarrow> pydict \<Rightarrow> pydict io" where
  "execute_data_capture env step data =
     io_return
       [(PStr ''status'', PStr ''waiting_for_input''),
        (PStr ''message'', PStr ''Waiting for participant response'')]"

definition execute_ai_scoring :: "env \<Rightarrow> pydict \<Rightarrow> pydict \<Rightarrow> pydict io" where
  "execute_ai_scoring env step data =
     io_bind (read_utcnow env) (\<lambda>stamp.
     io_return
       [(PStr ''status'', PStr ''completed''),
        (PStr ''output_data'',
         PDict [(PStr ''score'', PFloat (3 / 4)), (PStr ''scored_at'', PStr stamp)])])"

definition execute_blockchain_commit :: "env \<Rightarrow> pydict \<Rightarrow> pydict \<Rightarrow> pydict io" where
  "execute_blockchain_commit env step data =
     io_bind (read_time env) (\<lambda>t.
     io_return
       [(PStr ''status'', PStr ''completed''),
        (PStr ''output_data'',
         PDict [(PStr ''commitment_hash'', PStr (''mock_commitment_'' @ fmt env (PFloat t)))])])"

subsection \<open>One pass of the loop\<close>

text \<open>The chain of \<^verbatim>\<open>if step["stepType"] == ...\<close>: the first test raises KeyError on a step without the key.\<close>

definition dispatch_step :: "env \<Rightarrow> string \<Rightarrow> pydict \<Rightarrow> pydict \<Rightarrow> pydict io" where
  "dispatch_step env user_id step data =
     io_bind (io_lift (dict_item step (PStr ''stepType''))) (\<lambda>step_type.
       if step_type = PStr ''target_generation'' then execute_target_generation env step data
       else if step_type = PStr ''participant_guidance'' then
         execute_guidance_step env step (dict_get step (PStr ''agentId'') default_agent) user_id data
       else if step_type = PStr ''data_capture'' then execute_data_capture env step data
       else if step_type = PStr ''ai_scoring'' then execute_ai_scoring env step data
       else if step_type = PStr ''blockchain_commit'' then execute_blockchain_commit env step data
       else io_return [(PStr ''status'', PStr ''skipped''), (PStr ''reason'', PStr ''unknown_step_type'')])"

text \<open>The entry of lines 379 to 386, its values evaluated in the order of the literal.\<close>

definition success_entry :: "env \<Rightarrow> pydict \<Rightarrow> pydict \<Rightarrow> rat \<Rightarrow> pyval io" where
  "success_entry env step result step_start =
     io_bind (io_lift (dict_item step (PStr ''order''))) (\<lambda>order.
     io_bind (io_lift (dict_item step (PStr ''name''))) (\<lambda>name.
     io_bind (io_lift (dict_item step (PStr ''stepType''))) (\<lambda>step_type.
     io_bind (read_time env) (\<lambda>now.
     io_bind (read_utcnow env) (\<lambda>stamp.
     io_return
       (PDict [(PStr ''step_order'', order),
               (PStr ''step_name'', name),
               (PStr ''step_type'', step_type),
               (PStr ''result'', PDict result),
               (PStr ''duration_ms'', PInt (elapsed_ms env step_start now)),
               (PStr ''timestamp'', PStr stamp)]))))))"

text \<open>The entry of lines 395 to 400.\<close>

definition error_entry :: "env \<Rightarrow> pydict \<Rightarrow> error \<Rightarrow> pyval io" where
  "error_entry env step e =
     io_bind (io_lift (dict_item step (PStr ''order''))) (\<lambda>order.
     io_bind (io_lift (dict_item step (PStr ''name''))) (\<lambda>name.
     io_bind (read_utcnow env) (\<lambda>stamp.
     io_return
       (PDict [(PStr ''step_order'', order),
               (PStr ''step_name'', name),
               (PStr ''error'', PStr (exc_str env e)),
               (PStr ''timestamp'', PStr stamp)]))))"

text \<open>
  \<^verbatim>\<open>if result.get("output_data"): collected_data.update(result["output_data"])\<close>.
  Every handler returns a dict as its output data (lemma \<open>dispatch_output_data\<close> below), so
  the argument of \<^verbatim>\<open>update\<close> is a dict wherever the line runs; for any other truthy value
  the model raises.
\<close>

definition merge_output :: "pydict \<Rightarrow> pydict \<Rightarrow> error + pydict" where
  "merge_output data result =
     (case dict_lookup result (PStr ''output_data'') of
        None \<Rightarrow> Inr data
      | Some v \<Rightarrow>
          if truthy v
          then (case v of PDict output_data \<Rightarrow> Inr (dict_update data output_data) | _ \<Rightarrow> Inl TypeError)
          else Inr data)"

record loop_state =
  execution_log :: "pyval list"
  collected_data :: pydict
  current_step :: int

datatype flow = Continue loop_state | Break loop_state

text \<open>The \<^verbatim>\<open>except\<close> branch: the error entry is appended to the log as it stands, then \<^verbatim>\<open>break\<close>.\<close>

definition fail_step :: "env \<Rightarrow> pydict \<Rightarrow> error \<Rightarrow> loop_state \<Rightarrow> flow io" where
  "fail_step env step e ls =
     io_bind (error_entry env step e) (\<lambda>entry.
     io_return (Break (ls\<lparr>execution_log := execution_log ls @ [entry]\<rparr>)))"

text \<open>The \<^verbatim>\<open>try\<close> body up to the entry that \<^verbatim>\<open>execution_log.append\<close> receives.\<close>

definition attempt_step :: "env \<Rightarrow> string \<Rightarrow> pydict \<Rightarrow> rat \<Rightarrow> pydict \<Rightarrow> (pydict \<times> pyval) io" where
  "attempt_step env user_id step step_start data =
     io_bind (dispatch_step env user_id step data) (\<lambda>result.
     io_bind (success_entry env step result step_start) (\<lambda>entry.
     io_return (result, entry)))"

definition run_step :: "env \<Rightarrow> string \<Rightarrow> pydict \<Rightarrow> loop_state \<Rightarrow> flow io" where
  "run_step env user_id step ls =
     io_bind (read_time env) (\<lambda>step_start st.
       case attempt_step env user_id step step_start (collected_data ls) st of
         (Inl e, st') \<Rightarrow> fail_step env step e ls st'
       | (Inr (result, entry), st') \<Rightarrow>
           (let logged = ls\<lparr>execution_log := execution_log ls @ [entry]\<rparr>
            in case merge_output (collected_data logged) result of
                 Inl e \<Rightarrow> fail_step env step e logged st'
               | Inr data \<Rightarrow>
                   (Inr (Continue (logged\<lparr>collected_data := data,
                                          current_step := current_step logged + 1\<rparr>)), st')))"

fun run_steps :: "env \<Rightarrow> string \<Rightarrow> pydict list \<Rightarrow> loop_state \<Rightarrow> loop_state io" where
  "run_steps env user_id [] ls st = (Inr ls, st)"
| "run_steps env user_id (step # rest) ls st =
     (case run_step env user_id step ls st of
        (Inl e, st') \<Rightarrow> (Inl e, st')
      | (Inr (Break ls'), st') \<Rightarrow> (Inr ls', st')
      | (Inr (Continue ls'), st') \<Rightarrow> run_steps env user_id rest ls' st')"

subsection \<open>The whole run\<close>

definition initial_loop_state :: "pydict option \<Rightarrow> loop_state" where
  "initial_loop_state initial_data =
     \<lparr>execution_log = [],
      collected_data = (case initial_data of None \<Rightarrow> [] | Some d \<Rightarrow> d),
      current_step = 0\<rparr>"

definition workflow_result ::
  "env \<Rightarrow> pydict list \<Rightarrow> string \<Rightarrow> string \<Rightarrow> rat \<Rightarrow> loop_state \<Rightarrow> rat \<Rightarrow> pydict" where
  "workflow_result env workflow_steps template_id user_id start_time ls now =
     [(PStr ''template_id'', PStr template_id),
      (PStr ''user_id'', PStr user_id),
      (PStr ''status'',
       PStr (if current_step ls = int (length workflow_steps) then ''completed'' else ''failed'')),
      (PStr ''steps_completed'', PInt (current_step ls)),
      (PStr ''total_steps'', PInt (int (length workflow_steps))),
      (PStr ''execution_log'', PList (execution_log ls)),
      (PStr ''collected_data'', PDict (collected_data ls)),
      (PStr ''duration_ms'', PInt (elapsed_ms env start_time now))]"

text \<open>
  \<^verbatim>\<open>execute_workflow\<close> from the template on: \<open>execute_workflow_steps\<close> is its body for the
  steps \<^verbatim>\<open>_load_workflow_template\<close> returned, whatever they are.
\<close>

definition execute_workflow_steps ::
  "env \<Rightarrow> pydict list \<Rightarrow> string \<Rightarrow> string \<Rightarrow> pydict option \<Rightarrow> pydict io" where
  "execute_workflow_steps env workflow_steps template_id user_id initial_data =
     io_bind (read_time env) (\<lambda>start_time.
     io_bind (run_steps env user_id workflow_steps (initial_loop_state initial_data)) (\<lambda>ls.
     io_bind (read_time env) (\<lambda>now.
     io_return (workflow_result env workflow_steps template_id user_id start_time ls now))))"

definition execute_workflow :: "env \<Rightarrow> string \<Rightarrow> string \<Rightarrow> pydict option \<Rightarrow> pydict io" where
  "execute_workflow env template_id user_id initial_data =
     execute_workflow_steps env (load_workflow_template template_id) template_id user_id initial_data"

section \<open>Observing a run\<close>

text \<open>What a run added to the trace, and the events of one kind in it.\<close>

definition new_events :: "state \<Rightarrow> state \<Rightarrow> event list" where
  "new_events st st' = drop (length (trace st)) (trace st')"

fun is_invocation :: "event \<Rightarrow> bool" where
  "is_invocation (AgentCalled agent_name task user_id session_id ctx) = True"
| "is_invocation ev = False"

fun is_return :: "event \<Rightarrow> bool" where
  "is_return (AgentReturned agent_name r) = True"
| "is_return ev = False"

fun is_llm_call :: "event \<Rightarrow> bool" where
  "is_llm_call (LlmCall who req r) = True"
| "is_llm_call ev = False"

fun is_synthesis_call :: "event \<Rightarrow> bool" where
  "is_synthesis_call (LlmCall Synthesizer req r) = True"
| "is_synthesis_call ev = False"

text \<open>The agents a run invoked, in the order of their invocations.\<close>

fun called_name :: "event \<Rightarrow> pyval" where
  "called_name (AgentCalled agent_name task user_id session_id ctx) = agent_name"
| "called_name ev = PNone"

definition invoked :: "event list \<Rightarrow> pyval list" where
  "invoked evs = map called_name (filter is_invocation evs)"

text \<open>
  The result \<^verbatim>\<open>_call_agent\<close> gives for a name that is not in the registry: an error field
  "agent_not_found" and a response that is text.
\<close>

definition is_not_found :: "pyval \<Rightarrow> bool" where
  "is_not_found r =
     (case r of
        PDict d \<Rightarrow>
          dict_lookup d (PStr ''error'') = Some (PStr ''agent_not_found'')
          \<and> (case dict_lookup d (PStr ''response'') of Some (PStr text) \<Rightarrow> True | _ \<Rightarrow> False)
      | _ \<Rightarrow> False)"





text \<open>The entries into and the returns from \<^verbatim>\<open>_call_agent\<close> in a trace.\<close>

definition is_agent_event :: "event \<Rightarrow> bool" where
  "is_agent_event ev = (is_invocation ev \<or> is_return ev)"

definition agent_events :: "event list \<Rightarrow> event list" where
  "agent_events evs = filter is_agent_event evs"

text \<open>
  What an invocation of a sequential run must have received as its context, given the
  caller's context \<open>ctx\<close> and the response of the invocation before it: a dict of its own
  (never \<^verbatim>\<open>None\<close>); when that response is truthy, a dict that holds the response under
  "previous_agent_output" and, under every other key, the caller's items in their order;
  otherwise the caller's items and nothing else.
\<close>

definition other_items :: "pydict \<Rightarrow> pydict" where
  "other_items d = filter (\<lambda>(k, v). \<not> key_eq k (PStr ''previous_agent_output'')) d"

definition received :: "pydict option \<Rightarrow> pyval \<Rightarrow> pydict option \<Rightarrow> bool" where
  "received ctx previous_output c =
     (case c of
        None \<Rightarrow> False
      | Some d \<Rightarrow>
          (if truthy previous_output
           then dict_lookup d (PStr ''previous_agent_output'') = Some previous_output
                \<and> other_items d = other_items (case ctx of None \<Rightarrow> [] | Some items \<Rightarrow> items)
           else d = (case ctx of None \<Rightarrow> [] | Some items \<Rightarrow> items)))"

text \<open>
  The invocations of a sequential run over the agents \<open>names\<close>, as a recording double
  sees them: for each name in turn, one entry into \<^verbatim>\<open>_call_agent\<close> with that name, its
  sub-task (the one the plan assigns, else the task), the caller's user and session and
  the context above, directly followed by the return of that same invocation, and only
  then the entry for the next name. The list stops early only where the run does: after
  an invocation that raised or whose result has no response to read, or before a name
  whose sub-task cannot be looked up.
\<close>

fun chained ::
  "pydict option \<Rightarrow> string option \<Rightarrow> string option \<Rightarrow> pyval \<Rightarrow> string \<Rightarrow> pyval \<Rightarrow> pyval list
     \<Rightarrow> event list \<Rightarrow> bool" where
  "chained ctx user_id session_id agent_tasks task previous_output [] evs = (evs = [])"
| "chained ctx user_id session_id agent_tasks task previous_output (agent_name # names) evs =
     (case py_get agent_tasks agent_name (PStr task) of
        Inl e \<Rightarrow> evs = []
      | Inr agent_task \<Rightarrow>
          (case evs of
             AgentCalled called t u s c # AgentReturned returned r # rest \<Rightarrow>
               called = agent_name \<and> t = agent_task \<and> u = user_id \<and> s = session_id
               \<and> returned = agent_name \<and> received ctx previous_output c
               \<and> (case r of
                     Inl e \<Rightarrow> rest = []
                   | Inr result \<Rightarrow>
                       (case py_get result (PStr ''response'') (PStr '''') of
                          Inl e \<Rightarrow> rest = []
                        | Inr response \<Rightarrow>
                            chained ctx user_id session_id agent_tasks task response names rest))
           | _ \<Rightarrow> False))"

text \<open>The events a call of \<open>execute_task\<close> adds to the trace.\<close>

definition task_events ::
  "env \<Rightarrow> string \<Rightarrow> string option \<Rightarrow> string option \<Rightarrow> pydict option \<Rightarrow> state \<Rightarrow> event list" where
  "task_events env task user_id session_id ctx st =
     new_events st (snd (execute_task env task user_id session_id ctx st))"

section \<open>Observing the execution log\<close>

text \<open>
  The two kinds of entry the loop appends. The entry of a step whose handler returned has
  the six keys of lines 379 to 386, the entry of a step that raised the four keys of lines
  395 to 400; both carry the step's own order and name.
\<close>

definition is_success_entry :: "pydict \<Rightarrow> pyval \<Rightarrow> bool" where
  "is_success_entry step entry =
     (case entry of
        PDict d \<Rightarrow>
          map fst d = [PStr ''step_order'', PStr ''step_name'', PStr ''step_type'', PStr ''result'',
                       PStr ''duration_ms'', PStr ''timestamp'']
          \<and> dict_item d (PStr ''step_order'') = dict_item step (PStr ''order'')
          \<and> dict_item d (PStr ''step_name'') = dict_item step (PStr ''name'')
          \<and> dict_item d (PStr ''step_type'') = dict_item step (PStr ''stepType'')
      | _ \<Rightarrow> False)"

definition is_failure_entry :: "pydict \<Rightarrow> pyval \<Rightarrow> bool" where
  "is_failure_entry step entry =
     (case entry of
        PDict d \<Rightarrow>
          map fst d = [PStr ''step_order'', PStr ''step_name'', PStr ''error'', PStr ''timestamp'']
          \<and> dict_item d (PStr ''step_order'') = dict_item step (PStr ''order'')
          \<and> dict_item d (PStr ''step_name'') = dict_item step (PStr ''name'')
      | _ \<Rightarrow> False)"

text \<open>
  \<open>logged steps entries\<close>: the entries belong to the steps one by one, in order; each is
  the entry of a step that returned, except that the last may be the entry of a step that
  raised, after which no step has an entry. With no entry at all there was no step.
\<close>

fun logged :: "pydict list \<Rightarrow> pyval list \<Rightarrow> bool" where
  "logged steps [] = (steps = [])"
| "logged [] (entry # entries) = False"
| "logged (step # steps) (entry # entries) =
     ((is_success_entry step entry \<and> logged steps entries)
      \<or> (is_failure_entry step entry \<and> entries = []))"

text \<open>
  An entry holds a result or not, and \<open>merge_entry\<close> is what the result of an entry adds to
  the collected data: its \<open>output_data\<close>, when it has some; nothing for an entry with an error.
\<close>

definition has_result :: "pyval \<Rightarrow> bool" where
  "has_result entry =
     (case entry of PDict d \<Rightarrow> dict_lookup d (PStr ''result'') \<noteq> None | _ \<Rightarrow> False)"

definition merge_entry :: "pydict \<Rightarrow> pyval \<Rightarrow> pydict" where
  "merge_entry data entry =
     (case entry of
        PDict d \<Rightarrow>
          (case dict_lookup d (PStr ''result'') of
             Some (PDict result) \<Rightarrow>
               (case merge_output data result of Inr merged \<Rightarrow> merged | Inl e \<Rightarrow> data)
           | _ \<Rightarrow> data)
      | _ \<Rightarrow> data)"

section \<open>A concrete environment\<close>

text \<open>
  The environment the closed examples run in: the registry of \<^verbatim>\<open>main.py\<close>, a backend
  that answers the routing request with \<open>reply\<close> and the synthesis request with a fixed
  text, a conductor that answers \<open>answer\<close>, and a decoder that knows the one text \<open>reply\<close>
  (\<open>decoded\<close> is what \<^verbatim>\<open>json.loads\<close> makes of it, \<open>None\<close> for JSONDecodeError).
\<close>

definition demo_format :: "pyval \<Rightarrow> string" where
  "demo_format v =
     (case v of PNone \<Rightarrow> ''None'' | PBool b \<Rightarrow> (if b then ''True'' else ''False'') | _ \<Rightarrow> ''<value>'')"

fun demo_exc_str :: "error \<Rightarrow> string" where
  "demo_exc_str AttributeError = ''object has no attribute''"
| "demo_exc_str TypeError = ''unsupported type''"
| "demo_exc_str KeyError = ''missing key''"
| "demo_exc_str IndexError = ''list index out of range''"
| "demo_exc_str (Raised msg) = msg"

definition demo_env :: "string \<Rightarrow> pyval option \<Rightarrow> string \<Rightarrow> env" where
  "demo_env reply decoded answer =
     \<lparr>self_agents = [''experiment_conductor'', ''data_analyst'', ''rv_expert'', ''psi_score_ai''],
      self_model = ''gpt-4o'',
      self_system_prompt = ''You are the MetaCoordinator for Cognosis'',
      llm_chat_completion = (\<lambda>tr req.
        Inr (PDict [(PStr ''content'', PStr (if temperature req = 1 / 5 then reply else ''merged answer'')),
                    (PStr ''tokens_used'', PInt 0),
                    (PStr ''model'', PStr (model_name req))])),
      agent_chat = (\<lambda>tr agent req.
        Inr (PDict [(PStr ''response'', PStr answer), (PStr ''tokens_used'', PInt 0)])),
      agent_provide_guidance = (\<lambda>tr agent req.
        if agent = ''experiment_conductor''
        then Inr (PDict [(PStr ''message'', PStr answer),
                         (PStr ''next_action'', PStr ''experiment_complete'')])
        else Inl AttributeError),
      json_loads = (\<lambda>s. if s = reply then decoded else None),
      json_dumps = (\<lambda>d. ''{...}''),
      py_format = demo_format,
      exc_str = demo_exc_str,
      time_time = (\<lambda>tr. of_nat (length tr)),
      utcnow_isoformat = (\<lambda>tr. ''2024-01-01T00:00:00''),
      elapsed_ms = (\<lambda>t0 t1. \<lfloor>(t1 - t0) * 1000\<rfloor>)\<rparr>"

definition fresh :: state where
  "fresh = \<lparr>trace = [], total_coordinations = 0\<rparr>"

definition iterative_reply :: string where
  "iterative_reply =
     ''{\"strategy\": \"iterative\", \"agents\": [\"experiment_conductor\", \"data_analyst\"]}''"

definition iterative_plan :: pyval where
  "iterative_plan =
     PDict [(PStr ''strategy'', PStr ''iterative''),
            (PStr ''agents'', PList [PStr ''experiment_conductor'', PStr ''data_analyst''])]"

text \<open>Plans for two agents, the replies that carry them, and the results the agents give.\<close>

definition duplicate_reply :: string where
  "duplicate_reply = ''{\"strategy\": \"parallel\", \"agents\": [\"data_analyst\", \"data_analyst\"]}''"

definition duplicate_plan :: pyval where
  "duplicate_plan =
     PDict [(PStr ''strategy'', PStr ''parallel''),
            (PStr ''agents'', PList [PStr ''data_analyst'', PStr ''data_analyst''])]"

definition parallel_reply :: string where
  "parallel_reply = ''{\"strategy\": \"parallel\", \"agents\": [\"experiment_conductor\", \"data_analyst\"]}''"

definition parallel_plan :: pyval where
  "parallel_plan =
     PDict [(PStr ''strategy'', PStr ''parallel''),
            (PStr ''agents'', PList [PStr ''experiment_conductor'', PStr ''data_analyst''])]"

definition analyst_result :: pyval where
  "analyst_result =
     PDict [(PStr ''response'', PStr ''DataAnalyst integration pending for this task type''),
            (PStr ''agent'', PStr ''data_analyst'')]"

definition conductor_result :: "string \<Rightarrow> pyval" where
  "conductor_result answer = PDict [(PStr ''response'', PStr answer), (PStr ''tokens_used'', PInt 0)]"





text \<open>A sequential plan for the conductor and the analyst, and a caller's context.\<close>

definition sequential_reply :: string where
  "sequential_reply = ''{\"strategy\": \"sequential\", \"agents\": [\"experiment_conductor\", \"data_analyst\"]}''"

definition sequential_plan :: pyval where
  "sequential_plan =
     PDict [(PStr ''strategy'', PStr ''sequential''),
            (PStr ''agents'', PList [PStr ''experiment_conductor'', PStr ''data_analyst''])]"

definition telepathy_context :: pydict where
  "telepathy_context = [(PStr ''experiment_type'', PStr ''telepathy'')]"

definition bare_list_reply :: string where
  "bare_list_reply = ''[\"experiment_conductor\"]''"

text \<open>A workflow of four steps: the third asks an agent for guidance that has no such method.\<close>

definition demo_steps :: "pydict list" where
  "demo_steps =
     [[(PStr ''order'', PInt 0), (PStr ''stepType'', PStr ''ai_scoring''), (PStr ''name'', PStr ''Score'')],
      [(PStr ''order'', PInt 1), (PStr ''stepType'', PStr ''participant_guidance''), (PStr ''name'', PStr ''Guide'')],
      [(PStr ''order'', PInt 2), (PStr ''stepType'', PStr ''participant_guidance''), (PStr ''name'', PStr ''Review''),
       (PStr ''agentId'', PStr ''data_analyst'')],
      [(PStr ''order'', PInt 3), (PStr ''stepType'', PStr ''data_capture''), (PStr ''name'', PStr ''Capture'')]]"

text \<open>What the executor returns for it in the concrete environment (lemma \<open>demo_run\<close>).\<close>

definition demo_result :: pydict where
  "demo_result =
     [(PStr ''template_id'', PStr ''T''), (PStr ''user_id'', PStr ''u''),
      (PStr ''status'', PStr ''failed''),
      (PStr ''steps_completed'', PInt 2), (PStr ''total_steps'', PInt 4),
      (PStr ''execution_log'',
       PList
        [PDict
          [(PStr ''step_order'', PInt 0), (PStr ''step_name'', PStr ''Score''),
           (PStr ''step_type'', PStr ''ai_scoring''),
           (PStr ''result'',
            PDict
             [(PStr ''status'', PStr ''completed''),
              (PStr ''output_data'',
               PDict
                [(PStr ''score'', PFloat (3 / 4)),
                 (PStr ''scored_at'', PStr ''2024-01-01T00:00:00'')])]),
           (PStr ''duration_ms'', PInt 2000),
           (PStr ''timestamp'', PStr ''2024-01-01T00:00:00'')],
         PDict
          [(PStr ''step_order'', PInt 1), (PStr ''step_name'', PStr ''Guide''),
           (PStr ''step_type'', PStr ''participant_guidance''),
           (PStr ''result'',
            PDict
             [(PStr ''status'', PStr ''completed''),
              (PStr ''guidance'', PStr ''relax''),
              (PStr ''output_data'',
               PDict
                [(PStr ''message'', PStr ''relax''),
                 (PStr ''next_action'', PStr ''experiment_complete'')])]),
           (PStr ''duration_ms'', PInt 2000),
           (PStr ''timestamp'', PStr ''2024-01-01T00:00:00'')],
         PDict
          [(PStr ''step_order'', PInt 2), (PStr ''step_name'', PStr ''Review''),
           (PStr ''error'', PStr ''object has no attribute''),
           (PStr ''timestamp'', PStr ''2024-01-01T00:00:00'')]]),
      (PStr ''collected_data'',
       PDict
        [(PStr ''score'', PFloat (3 / 4)),
         (PStr ''scored_at'', PStr ''2024-01-01T00:00:00''),
         (PStr ''message'', PStr ''relax''),
         (PStr ''next_action'', PStr ''experiment_complete'')]),
      (PStr ''duration_ms'', PInt 12000)]"

text \<open>The last entry of the log of that run.\<close>

definition demo_failure_entry :: pydict where
  "demo_failure_entry =
     [(PStr ''step_order'', PInt 2), (PStr ''step_name'', PStr ''Review''),
      (PStr ''error'', PStr ''object has no attribute''),
      (PStr ''timestamp'', PStr ''2024-01-01T00:00:00'')]"

section \<open>Properties of route_task\<close>

lemmas io_defs = io_return_def io_raise_def io_lift_def io_bind_def io_try_def

text \<open>\<open>route_task\<close> in one equation: one request to the backend, then the decoding.\<close>

lemma route_task_unfold:
  "route_task env task user_id ctx st =
     (case llm_chat_completion env (trace st) (routing_request env (routing_prompt env task ctx)) of
        Inl e \<Rightarrow> Inl e
      | Inr response \<Rightarrow>
          (case py_getitem response (PStr ''content'') of
             Inl e \<Rightarrow> Inl e
           | Inr (PStr text) \<Rightarrow>
               (case json_loads env text of
                  Some plan \<Rightarrow> Inr plan
                | None \<Rightarrow> Inr (default_plan (routing_prompt env task ctx)))
           | Inr _ \<Rightarrow> Inl TypeError),
      emit (LlmCall Router (routing_request env (routing_prompt env task ctx))
              (llm_chat_completion env (trace st) (routing_request env (routing_prompt env task ctx)))) st)"
  by (simp add: route_task_def io_defs chat_completion_def decode_plan_def Let_def
      split: sum.splits pyval.splits option.splits)

text \<open>
  Claim C1, as amended. When the content of the backend's reply is a string that
  \<^verbatim>\<open>json.loads\<close> rejects, \<open>route_task\<close> does not raise: it returns the plan with strategy
  "single", agents \<^verbatim>\<open>["experiment_conductor"]\<close> and a routing with the one key
  "experiment_conductor", after exactly one request to the backend.
\<close>

theorem route_task_fallback:
  assumes reply: "llm_chat_completion env (trace st) (routing_request env (routing_prompt env task ctx))
                    = Inr response"
    and content: "py_getitem response (PStr ''content'') = Inr (PStr text)"
    and undecodable: "json_loads env text = None"
  shows "\<exists>sub_task.
           route_task env task user_id ctx st =
             (Inr (PDict [(PStr ''strategy'', PStr ''single''),
                          (PStr ''agents'', PList [PStr ''experiment_conductor'']),
                          (PStr ''routing'', PDict [(PStr ''experiment_conductor'', sub_task)])]),
              emit (LlmCall Router (routing_request env (routing_prompt env task ctx)) (Inr response)) st)"
  using assms by (simp add: route_task_unfold default_plan_def)

theorem route_task_fallback_witness:
  "fst (route_task (demo_env ''I would route this to the conductor.'' None ''ok'')
          ''compare my sessions'' None None fresh)
     = Inr (PDict [(PStr ''strategy'', PStr ''single''),
                   (PStr ''agents'', PList [PStr ''experiment_conductor'']),
                   (PStr ''routing'', PDict [(PStr ''experiment_conductor'',
                      PStr (routing_prompt (demo_env ''I would route this to the conductor.'' None ''ok'')
                              ''compare my sessions'' None))])])"
  using route_task_fallback [of "demo_env ''I would route this to the conductor.'' None ''ok''" fresh
      "''compare my sessions''" None
      "PDict [(PStr ''content'', PStr ''I would route this to the conductor.''),
              (PStr ''tokens_used'', PInt 0), (PStr ''model'', PStr ''gpt-4o'')]"
      "''I would route this to the conductor.''" None]
  by (auto simp: demo_env_def routing_request_def py_getitem_def key_eq_def route_task_unfold default_plan_def)

text \<open>
  The sub-task the fallback stores is the routing prompt, the text that asks the backend
  to choose agents; it embeds the task and is never the task itself.
\<close>

lemma routing_prompt_not_task: "routing_prompt env task ctx \<noteq> task"
proof
  assume "routing_prompt env task ctx = task"
  then have "length (routing_prompt env task ctx) = length task" by simp
  then show False by (simp add: routing_prompt_def)
qed

lemma route_task_fallback_sub_task:
  assumes "fst (route_task env task user_id ctx st) = Inr (default_plan p)"
      and "llm_chat_completion env (trace st) (routing_request env (routing_prompt env task ctx)) = Inr response"
      and "py_getitem response (PStr ''content'') = Inr (PStr text)"
      and "json_loads env text = None"
  shows "p = routing_prompt env task ctx \<and> p \<noteq> task"
  using assms routing_prompt_not_task [of env task ctx]
  by (simp add: route_task_unfold default_plan_def)

text \<open>
  Claim C1 as written fails twice. A reply that is JSON but no plan (here a bare list of
  agent names) is returned as decoded, without the fallback; and the fallback plan does
  not map the default agent to the task text.
\<close>

theorem route_task_fallback_counterexample:
  "fst (route_task (demo_env bare_list_reply (Some (PList [PStr ''experiment_conductor''])) ''ok'')
          ''compare my sessions'' None None fresh)
     = Inr (PList [PStr ''experiment_conductor''])
   \<and> fst (route_task (demo_env ''I would route this to the conductor.'' None ''ok'')
            ''compare my sessions'' None None fresh)
     \<noteq> Inr (PDict [(PStr ''strategy'', PStr ''single''),
                    (PStr ''agents'', PList [PStr ''experiment_conductor'']),
                    (PStr ''routing'', PDict [(PStr ''experiment_conductor'', PStr ''compare my sessions'')])])"
  using routing_prompt_not_task [of "demo_env ''I would route this to the conductor.'' None ''ok''"
      "''compare my sessions''" None]
  by (simp add: route_task_unfold demo_env_def routing_request_def py_getitem_def key_eq_def
      default_plan_def bare_list_reply_def)

section \<open>Properties of execute_task\<close>

subsection \<open>A strategy that is not implemented\<close>

text \<open>
  Claim C10. When the routing plan is a dict whose strategy is none of "single",
  "parallel" and "sequential" (the declared "iterative", say), \<open>execute_task\<close> does not
  raise: it returns the error outcome (the apology as response, strategy "error") for the
  IndexError that \<^verbatim>\<open>list(agent_results.keys())[0]\<close> raises on the empty dict. The state it
  returns is the one \<open>route_task\<close> left: no agent was invoked, nothing else happened.
\<close>

theorem unknown_strategy_error_outcome:
  assumes routed: "fst (route_task env task user_id ctx (snd (read_time env st))) = Inr (PDict plan)"
    and other: "dict_get plan (PStr ''strategy'') (PStr ''single'')
                  \<notin> {PStr ''single'', PStr ''parallel'', PStr ''sequential''}"
  shows "execute_task env task user_id session_id ctx st =
           (Inr (error_outcome env IndexError),
            snd (route_task env task user_id ctx (snd (read_time env st))))
         \<and> filter is_invocation (trace (snd (route_task env task user_id ctx (snd (read_time env st)))))
             = filter is_invocation (trace st)"
proof -
  obtain st1 where r: "route_task env task user_id ctx (snd (read_time env st)) = (Inr (PDict plan), st1)"
    using routed by (cases "route_task env task user_id ctx (snd (read_time env st))") auto
  have a: "execute_task env task user_id session_id ctx st = (Inr (error_outcome env IndexError), st1)"
    using other r
    by (simp add: execute_task_def coordinate_def io_defs read_time_def run_strategy_def
        final_response_def py_get_def seq_index_def Let_def)
  have b: "filter is_invocation (trace st1) = filter is_invocation (trace st)"
    using r
    by (auto simp: route_task_def io_defs read_time_def chat_completion_def emit_def decode_plan_def
        Let_def split: sum.splits prod.splits pyval.splits option.splits)
  show ?thesis using a b r by simp
qed

lemma demo_route_iterative:
  "fst (route_task (demo_env iterative_reply (Some iterative_plan) ''ok'') ''compare my sessions'' None None
          (snd (read_time (demo_env iterative_reply (Some iterative_plan) ''ok'') fresh)))
     = Inr iterative_plan"
  by (simp add: route_task_def io_defs read_time_def chat_completion_def emit_def decode_plan_def Let_def
      demo_env_def routing_request_def py_getitem_def key_eq_def)

theorem unknown_strategy_witness:
  "fst (execute_task (demo_env iterative_reply (Some iterative_plan) ''ok'')
          ''compare my sessions'' None None None fresh)
     = Inr [(PStr ''response'', PStr ''I encountered an error coordinating this task. Please try again.''),
            (PStr ''error'', PStr ''list index out of range''),
            (PStr ''strategy'', PStr ''error'')]"
  using unknown_strategy_error_outcome [of "demo_env iterative_reply (Some iterative_plan) ''ok''"
      "''compare my sessions''" None None fresh
      "[(PStr ''strategy'', PStr ''iterative''),
        (PStr ''agents'', PList [PStr ''experiment_conductor'', PStr ''data_analyst''])]" None]
    demo_route_iterative
  by (simp add: iterative_plan_def dict_get_def key_eq_def error_outcome_def apology_def demo_env_def)

subsection \<open>What a run adds to the trace\<close>

text \<open>
  An invocation adds its entry, at most one call of the conductor and its return; a strategy
  adds invocations only, no call of the backend, and leaves the counter alone.
\<close>

lemma call_agent_trace:
  assumes "call_agent env n t u s c st = (r, st')"
  shows "\<exists>evs. trace st' = trace st @ AgentCalled n t u s c # evs @ [AgentReturned n r]
           \<and> filter is_llm_call evs = [] \<and> filter is_invocation evs = [] \<and> filter is_return evs = []
           \<and> total_coordinations st' = total_coordinations st"
  using assms
  by (auto simp: call_agent_def call_agent_body_def io_defs chat_def emit_def Let_def
      split: if_splits prod.splits)

lemma resume_agent_trace:
  assumes "resume_agent env n t u s c st = (r, st')"
  shows "\<exists>evs. trace st' = trace st @ evs @ [AgentReturned n r]
           \<and> filter is_llm_call evs = [] \<and> filter is_invocation evs = [] \<and> filter is_return evs = []
           \<and> total_coordinations st' = total_coordinations st"
  using assms
  by (auto simp: resume_agent_def call_agent_body_def io_defs chat_def emit_def Let_def
      split: if_splits prod.splits)

lemma start_all_trace:
  assumes "start_all env u s c calls st = (slots, st')"
  shows "\<exists>evs. trace st' = trace st @ evs \<and> filter is_llm_call evs = []
           \<and> total_coordinations st' = total_coordinations st"
  using assms
proof (induction calls arbitrary: st slots st')
  case Nil
  then show ?case by simp
next
  case (Cons p calls)
  obtain n t where p: "p = (n, t)" by (cases p)
  show ?case
  proof (cases "suspends env n")
    case True
    let ?st1 = "emit (AgentCalled n t u s c) st"
    obtain slots2 st2 where c2: "start_all env u s c calls ?st1 = (slots2, st2)"
      by (cases "start_all env u s c calls ?st1")
    from Cons.IH [OF c2] obtain evs2 where e2: "trace st2 = trace ?st1 @ evs2" "filter is_llm_call evs2 = []"
      "total_coordinations st2 = total_coordinations ?st1" by blast
    from Cons.prems p True c2 have "st' = st2" by simp
    with e2 show ?thesis by (simp add: emit_def)
  next
    case False
    obtain r1 st1 where c1: "call_agent env n t u s c st = (r1, st1)" by (cases "call_agent env n t u s c st")
    from call_agent_trace [OF c1] obtain evs1 where e1:
      "trace st1 = trace st @ AgentCalled n t u s c # evs1 @ [AgentReturned n r1]"
      "filter is_llm_call evs1 = []" "total_coordinations st1 = total_coordinations st" by blast
    obtain slots2 st2 where c2: "start_all env u s c calls st1 = (slots2, st2)"
      by (cases "start_all env u s c calls st1")
    from Cons.IH [OF c2] obtain evs2 where e2: "trace st2 = trace st1 @ evs2" "filter is_llm_call evs2 = []"
      "total_coordinations st2 = total_coordinations st1" by blast
    from Cons.prems p False c1 c2 have "st' = st2" by simp
    with e1 e2 show ?thesis by simp
  qed
qed

lemma finish_all_trace:
  assumes "finish_all env u s c slots st = (r, st')"
  shows "\<exists>evs. trace st' = trace st @ evs \<and> filter is_llm_call evs = [] \<and> filter is_invocation evs = []
           \<and> total_coordinations st' = total_coordinations st"
  using assms
proof (induction slots arbitrary: st r st')
  case Nil
  then show ?case by simp
next
  case (Cons slot slots)
  show ?case
  proof (cases slot)
    case (Done r0)
    show ?thesis
    proof (cases r0)
      case (Inl e)
      with Cons.prems Done have "st' = st" by simp
      then show ?thesis by simp
    next
      case (Inr result)
      obtain r2 st2 where c2: "finish_all env u s c slots st = (r2, st2)"
        by (cases "finish_all env u s c slots st")
      from Cons.prems Done Inr c2 have "st' = st2" by (simp split: sum.splits)
      with Cons.IH [OF c2] show ?thesis by simp
    qed
  next
    case (Pending n t)
    obtain r1 st1 where c1: "resume_agent env n t u s c st = (r1, st1)"
      by (cases "resume_agent env n t u s c st")
    from resume_agent_trace [OF c1] obtain evs1 where e1:
      "trace st1 = trace st @ evs1 @ [AgentReturned n r1]" "filter is_llm_call evs1 = []"
      "filter is_invocation evs1 = []" "total_coordinations st1 = total_coordinations st" by blast
    show ?thesis
    proof (cases r1)
      case (Inl e)
      with Cons.prems Pending c1 have "st' = st1" by simp
      with e1 show ?thesis by simp
    next
      case (Inr result)
      obtain r2 st2 where c2: "finish_all env u s c slots st1 = (r2, st2)"
        by (cases "finish_all env u s c slots st1")
      from Cons.IH [OF c2] obtain evs2 where e2: "trace st2 = trace st1 @ evs2" "filter is_llm_call evs2 = []"
        "filter is_invocation evs2 = []" "total_coordinations st2 = total_coordinations st1" by blast
      from Cons.prems Pending c1 Inr c2 have "st' = st2" by (simp split: sum.splits)
      with e1 e2 show ?thesis by simp
    qed
  qed
qed

lemma gather_trace:
  assumes "gather env u s c calls st = (r, st')"
  shows "\<exists>evs. trace st' = trace st @ evs \<and> filter is_llm_call evs = []
           \<and> total_coordinations st' = total_coordinations st"
proof -
  obtain slots st1 where c1: "start_all env u s c calls st = (slots, st1)"
    by (cases "start_all env u s c calls st")
  from start_all_trace [OF c1] obtain evs1 where e1: "trace st1 = trace st @ evs1"
    "filter is_llm_call evs1 = []" "total_coordinations st1 = total_coordinations st" by blast
  show ?thesis
  proof (cases "first_fault slots")
    case (Some e)
    with assms c1 have "st' = st1" by (simp add: gather_def)
    with e1 show ?thesis by simp
  next
    case None
    with assms c1 have c2: "finish_all env u s c slots st1 = (r, st')" by (simp add: gather_def)
    from finish_all_trace [OF c2] obtain evs2 where "trace st' = trace st1 @ evs2"
      "filter is_llm_call evs2 = []" "total_coordinations st' = total_coordinations st1" by blast
    with e1 show ?thesis by simp
  qed
qed

lemma sequential_step_trace:
  assumes "sequential_step env task u s c agent_tasks n acc st = (r, st')"
  shows "\<exists>evs. trace st' = trace st @ evs \<and> filter is_llm_call evs = []
           \<and> total_coordinations st' = total_coordinations st"
proof -
  obtain prev res where acc: "acc = (prev, res)" by (cases acc)
  show ?thesis
  proof (cases "py_get agent_tasks n (PStr task)")
    case (Inl e)
    with assms acc show ?thesis by (simp add: sequential_step_def io_defs)
  next
    case (Inr t)
    obtain r1 st1 where c1: "call_agent env n t u s (Some (enhanced_context c prev)) st = (r1, st1)"
      by (cases "call_agent env n t u s (Some (enhanced_context c prev)) st")
    from call_agent_trace [OF c1] obtain evs1 where e1:
      "trace st1 = trace st @ AgentCalled n t u s (Some (enhanced_context c prev)) # evs1 @ [AgentReturned n r1]"
      "filter is_llm_call evs1 = []" "total_coordinations st1 = total_coordinations st" by blast
    from assms acc Inr c1 have "st' = st1"
      by (auto simp: sequential_step_def io_defs split: sum.splits)
    with e1 show ?thesis by simp
  qed
qed

lemma sequential_loop_trace:
  assumes "sequential_loop env task u s c agent_tasks names acc st = (r, st')"
  shows "\<exists>evs. trace st' = trace st @ evs \<and> filter is_llm_call evs = []
           \<and> total_coordinations st' = total_coordinations st"
  using assms
proof (induction names arbitrary: acc st r st')
  case Nil
  then show ?case by simp
next
  case (Cons n names)
  obtain r1 st1 where c1: "sequential_step env task u s c agent_tasks n acc st = (r1, st1)"
    by (cases "sequential_step env task u s c agent_tasks n acc st")
  from sequential_step_trace [OF c1] obtain evs1 where e1:
    "trace st1 = trace st @ evs1" "filter is_llm_call evs1 = []"
    "total_coordinations st1 = total_coordinations st" by blast
  show ?case
  proof (cases r1)
    case (Inl e)
    with Cons.prems c1 have "st' = st1" by simp
    with e1 show ?thesis by simp
  next
    case (Inr acc1)
    with Cons.prems c1 have c2: "sequential_loop env task u s c agent_tasks names acc1 st1 = (r, st')" by simp
    from Cons.IH [OF c2] obtain evs2 where e2: "trace st' = trace st1 @ evs2" "filter is_llm_call evs2 = []"
      "total_coordinations st' = total_coordinations st1" by blast
    with e1 show ?thesis by simp
  qed
qed

lemma run_strategy_trace:
  assumes "run_strategy env task u s c strategy agents_to_use agent_tasks st = (r, st')"
  shows "\<exists>evs. trace st' = trace st @ evs \<and> filter is_llm_call evs = []
           \<and> total_coordinations st' = total_coordinations st"
proof -
  consider (single) "strategy = PStr ''single''" | (parallel) "strategy = PStr ''parallel''"
    | (sequential) "strategy = PStr ''sequential''"
    | (other) "strategy \<noteq> PStr ''single''" "strategy \<noteq> PStr ''parallel''" "strategy \<noteq> PStr ''sequential''"
    by blast
  then show ?thesis
  proof cases
    case single
    with assms have run: "run_single env task u s c agents_to_use agent_tasks st = (r, st')"
      by (simp add: run_strategy_def)
    show ?thesis
    proof (cases "if truthy agents_to_use then py_getitem agents_to_use (PInt 0) else Inr default_agent")
      case (Inl e)
      with run show ?thesis by (auto simp: run_single_def io_defs split: if_splits)
    next
      case (Inr n)
      note name = Inr
      show ?thesis
      proof (cases "py_get agent_tasks n (PStr task)")
        case (Inl e)
        with run name show ?thesis by (auto simp: run_single_def io_defs split: if_splits)
      next
        case (Inr t)
        obtain r1 st1 where c1: "call_agent env n t u s c st = (r1, st1)" by (cases "call_agent env n t u s c st")
        from call_agent_trace [OF c1] obtain evs1 where e1:
          "trace st1 = trace st @ AgentCalled n t u s c # evs1 @ [AgentReturned n r1]"
          "filter is_llm_call evs1 = []" "total_coordinations st1 = total_coordinations st" by blast
        from run name Inr c1 have "st' = st1"
          by (auto simp: run_single_def io_defs split: if_splits sum.splits)
        with e1 show ?thesis by simp
      qed
    qed
  next
    case parallel
    with assms have run: "run_parallel env task u s c agents_to_use agent_tasks st = (r, st')"
      by (simp add: run_strategy_def)
    show ?thesis
    proof (cases "py_iter agents_to_use")
      case (Inl e)
      with run show ?thesis by (simp add: run_parallel_def io_defs)
    next
      case (Inr names)
      note names = Inr
      show ?thesis
      proof (cases "agent_task_list agent_tasks task names")
        case (Inl e)
        with run names show ?thesis by (simp add: run_parallel_def io_defs)
      next
        case (Inr tasks)
        obtain r1 st1 where c1: "gather env u s c (zip names tasks) st = (r1, st1)"
          by (cases "gather env u s c (zip names tasks) st")
        from run names Inr c1 have "st' = st1"
          by (auto simp: run_parallel_def io_defs split: sum.splits)
        with gather_trace [OF c1] show ?thesis by simp
      qed
    qed
  next
    case sequential
    with assms have run: "run_sequential env task u s c agents_to_use agent_tasks st = (r, st')"
      by (simp add: run_strategy_def)
    show ?thesis
    proof (cases "py_iter agents_to_use")
      case (Inl e)
      with run show ?thesis by (simp add: run_sequential_def io_defs)
    next
      case (Inr names)
      obtain r1 st1 where c1: "sequential_loop env task u s c agent_tasks names (PNone, []) st = (r1, st1)"
        by (cases "sequential_loop env task u s c agent_tasks names (PNone, []) st")
      from run Inr c1 have "st' = st1"
        by (auto simp: run_sequential_def io_defs split: sum.splits)
      with sequential_loop_trace [OF c1] show ?thesis by simp
    qed
  next
    case other
    with assms show ?thesis by (simp add: run_strategy_def io_defs)
  qed
qed


lemma coordinate_normal:
  assumes run: "coordinate env task u s ctx t0 st0 = (Inr outcome, st')"
  obtains plan strategy agents_to_use agent_tasks results resp st1 st2 st3 where
    "route_task env task u ctx st0 = (Inr plan, st1)"
    "py_get plan (PStr ''strategy'') (PStr ''single'') = Inr strategy"
    "py_get plan (PStr ''agents'') (PList []) = Inr agents_to_use"
    "py_get plan (PStr ''routing'') (PDict []) = Inr agent_tasks"
    "run_strategy env task u s ctx strategy agents_to_use agent_tasks st1 = (Inr results, st2)"
    "final_response env task ctx results st2 = (Inr resp, st3)"
    "outcome = [(PStr ''response'', resp), (PStr ''strategy'', strategy),
                (PStr ''agents_used'', agents_to_use), (PStr ''agent_results'', PDict results),
                (PStr ''duration_ms'', PInt (elapsed_ms env t0 (time_time env (trace st3)))),
                (PStr ''coordinated_at'',
                 PStr (utcnow_isoformat env (trace st3 @ [TimeRead (time_time env (trace st3))])))]"
    "trace st' = trace st3 @ [TimeRead (time_time env (trace st3)),
                  UtcRead (utcnow_isoformat env (trace st3 @ [TimeRead (time_time env (trace st3))]))]"
    "total_coordinations st' = total_coordinations st3 + 1"
proof -
  obtain r1 st1 where a1: "route_task env task u ctx st0 = (r1, st1)" by (cases "route_task env task u ctx st0")
  from run a1 obtain plan where p: "r1 = Inr plan"
    by (cases r1) (auto simp: coordinate_def io_defs)
  from run a1 p obtain strategy where s1: "py_get plan (PStr ''strategy'') (PStr ''single'') = Inr strategy"
    by (cases "py_get plan (PStr ''strategy'') (PStr ''single'')") (auto simp: coordinate_def io_defs)
  from run a1 p s1 obtain agents_to_use where s2: "py_get plan (PStr ''agents'') (PList []) = Inr agents_to_use"
    by (cases "py_get plan (PStr ''agents'') (PList [])") (auto simp: coordinate_def io_defs)
  from run a1 p s1 s2 obtain agent_tasks where s3: "py_get plan (PStr ''routing'') (PDict []) = Inr agent_tasks"
    by (cases "py_get plan (PStr ''routing'') (PDict [])") (auto simp: coordinate_def io_defs)
  obtain r2 st2 where a2: "run_strategy env task u s ctx strategy agents_to_use agent_tasks st1 = (r2, st2)"
    by (cases "run_strategy env task u s ctx strategy agents_to_use agent_tasks st1")
  from run a1 p s1 s2 s3 a2 obtain results where q: "r2 = Inr results"
    by (cases r2) (auto simp: coordinate_def io_defs)
  obtain r3 st3 where a3: "final_response env task ctx results st2 = (r3, st3)"
    by (cases "final_response env task ctx results st2")
  from run a1 p s1 s2 s3 a2 q a3 obtain resp where w: "r3 = Inr resp"
    by (cases r3) (auto simp: coordinate_def io_defs)
  from run a1 p s1 s2 s3 a2 q a3 w
  have "outcome = [(PStr ''response'', resp), (PStr ''strategy'', strategy),
                (PStr ''agents_used'', agents_to_use), (PStr ''agent_results'', PDict results),
                (PStr ''duration_ms'', PInt (elapsed_ms env t0 (time_time env (trace st3)))),
                (PStr ''coordinated_at'',
                 PStr (utcnow_isoformat env (trace st3 @ [TimeRead (time_time env (trace st3))])))]"
    and "trace st' = trace st3 @ [TimeRead (time_time env (trace st3)),
                  UtcRead (utcnow_isoformat env (trace st3 @ [TimeRead (time_time env (trace st3))]))]"
    and "total_coordinations st' = total_coordinations st3 + 1"
    by (auto simp: coordinate_def io_defs count_coordination_def read_time_def read_utcnow_def emit_def Let_def)
  with that a1 p s1 s2 s3 a2 q a3 w show ?thesis by blast
qed

lemma execute_task_normal:
  assumes run: "execute_task env task u s ctx st = (Inr outcome, st')"
    and normal: "dict_lookup outcome (PStr ''agent_results'') = Some v"
  shows "coordinate env task u s ctx (time_time env (trace st)) (emit (TimeRead (time_time env (trace st))) st)
           = (Inr outcome, st')"
proof (cases "coordinate env task u s ctx (time_time env (trace st)) (emit (TimeRead (time_time env (trace st))) st)")
  case (Pair r st1)
  show ?thesis
  proof (cases r)
    case (Inl e)
    with run Pair have "outcome = error_outcome env e"
      by (auto simp: execute_task_def io_defs read_time_def Let_def)
    with normal show ?thesis by (simp add: error_outcome_def key_eq_def)
  next
    case (Inr x)
    with run Pair show ?thesis by (auto simp: execute_task_def io_defs read_time_def Let_def)
  qed
qed

lemma route_task_trace:
  assumes "route_task env task u ctx st = (r, st')"
  shows "\<exists>req reply. trace st' = trace st @ [LlmCall Router req reply]
           \<and> total_coordinations st' = total_coordinations st"
  using assms by (auto simp: route_task_unfold emit_def)

lemma synthesize_results_trace:
  assumes "synthesize_results env task results ctx st = (Inr resp, st')"
  shows "\<exists>req reply. trace st' = trace st @ [LlmCall Synthesizer req (Inr reply)]
           \<and> py_getitem reply (PStr ''content'') = Inr resp
           \<and> total_coordinations st' = total_coordinations st"
  using assms
  by (auto simp: synthesize_results_def io_defs chat_completion_def emit_def Let_def split: sum.splits)


lemma key_eq_refl: "key_eq k k"
  by (simp add: key_eq_def)

lemma new_events_append: "trace st' = trace st @ evs \<Longrightarrow> new_events st st' = evs"
  by (simp add: new_events_def)

lemma llm_free_no_synthesis:
  "filter is_llm_call evs = [] \<Longrightarrow> filter is_synthesis_call evs = []"
proof (induction evs)
  case Nil
  then show ?case by simp
next
  case (Cons ev evs)
  then show ?case by (cases ev) (auto split: if_splits)
qed


lemma final_response_many:
  assumes "final_response env task ctx results st = (Inr resp, st')" and "2 \<le> length results"
  shows "\<exists>req reply. trace st' = trace st @ [LlmCall Synthesizer req (Inr reply)]
           \<and> py_getitem reply (PStr ''content'') = Inr resp"
  using assms synthesize_results_trace [of env task results ctx st resp st']
  by (auto simp: final_response_def)

lemma final_response_quiet:
  assumes "final_response env task ctx results st = (r, st')"
  shows "\<exists>evs. trace st' = trace st @ evs \<and> agent_events evs = [] \<and> invoked evs = []"
proof (cases "1 < length results")
  case True
  with assms have syn: "synthesize_results env task results ctx st = (r, st')"
    by (simp add: final_response_def)
  show ?thesis
  proof (cases "response_lines env results")
    case (Inl e)
    with syn have "st' = st" by (simp add: synthesize_results_def io_defs)
    then show ?thesis by (simp add: agent_events_def invoked_def)
  next
    case (Inr ls)
    with syn obtain req reply where "trace st' = trace st @ [LlmCall Synthesizer req reply]"
      by (auto simp: synthesize_results_def io_defs chat_completion_def emit_def Let_def split: sum.splits)
    then show ?thesis by (simp add: agent_events_def invoked_def is_agent_event_def)
  qed
next
  case False
  with assms have "st' = st"
    by (auto simp: final_response_def io_defs split: sum.splits)
  then show ?thesis by (simp add: agent_events_def invoked_def)
qed

lemma io_bind_lift_Inr: "io_bind (io_lift (Inr v)) f = f v"
  by (simp add: io_defs)

lemma io_bind_apply_Inr: "m st = (Inr x, st') \<Longrightarrow> io_bind m f st = f x st'"
  by (simp add: io_defs)

lemma io_bind_apply_Inl: "m st = (Inl e, st') \<Longrightarrow> io_bind m f st = (Inl e, st')"
  by (simp add: io_defs)

lemmas task_defs = execute_task_def coordinate_def route_task_unfold io_defs read_time_def read_utcnow_def
  emit_def Let_def py_get_def py_getitem_def dict_get_def key_eq_def run_strategy_def run_single_def
  run_parallel_def run_sequential_def gather_def suspends_def resume_agent_def call_agent_def call_agent_body_def in_registry_def chat_def
  final_response_def seq_index_def dict_item_def count_coordination_def default_agent_def
  synthesize_results_def chat_completion_def enhanced_context_def sequential_step_def
  agent_not_found_def fmt_def routing_request_def synthesis_request_def default_plan_def

subsection \<open>One result: passthrough\<close>




subsection \<open>Two or more results: one synthesis\<close>

text \<open>
  Claim C4, as amended. When the outcome holds two or more agent results (results under
  two or more distinct agent names), the run made exactly one synthesis call of the backend,
  the call returned, and the outcome's response is the content of its reply, unchanged.
\<close>


theorem synthesis_once:
  assumes run: "execute_task env task user_id session_id ctx st = (Inr outcome, st')"
    and many: "dict_lookup outcome (PStr ''agent_results'') = Some (PDict results)"
    and two: "2 \<le> length results"
  shows "\<exists>req reply response.
           filter is_synthesis_call (new_events st st') = [LlmCall Synthesizer req (Inr reply)]
           \<and> py_getitem reply (PStr ''content'') = Inr response
           \<and> dict_lookup outcome (PStr ''response'') = Some response"
proof -
  define t0 where "t0 = time_time env (trace st)"
  define st0 where "st0 = emit (TimeRead t0) st"
  from execute_task_normal [OF run many]
  have c: "coordinate env task user_id session_id ctx t0 st0 = (Inr outcome, st')"
    by (simp add: t0_def st0_def)
  show ?thesis
  proof (rule coordinate_normal [OF c])
    fix plan strategy agents_to_use agent_tasks results' resp st1 st2 st3
    assume routed: "route_task env task user_id ctx st0 = (Inr plan, st1)"
      and ran: "run_strategy env task user_id session_id ctx strategy agents_to_use agent_tasks st1
                  = (Inr results', st2)"
      and fin: "final_response env task ctx results' st2 = (Inr resp, st3)"
      and out: "outcome = [(PStr ''response'', resp), (PStr ''strategy'', strategy),
                (PStr ''agents_used'', agents_to_use), (PStr ''agent_results'', PDict results'),
                (PStr ''duration_ms'', PInt (elapsed_ms env t0 (time_time env (trace st3)))),
                (PStr ''coordinated_at'',
                 PStr (utcnow_isoformat env (trace st3 @ [TimeRead (time_time env (trace st3))])))]"
      and tr: "trace st' = trace st3 @ [TimeRead (time_time env (trace st3)),
                  UtcRead (utcnow_isoformat env (trace st3 @ [TimeRead (time_time env (trace st3))]))]"
    have "dict_lookup outcome (PStr ''agent_results'') = Some (PDict results')"
      by (simp add: out key_eq_def)
    with many have res: "results' = results" by simp
    have lookup: "dict_lookup outcome (PStr ''response'') = Some resp"
      by (simp add: out key_eq_def)
    from final_response_many [of env task ctx results st2 resp st3] fin res two
    obtain sreq sreply where t3: "trace st3 = trace st2 @ [LlmCall Synthesizer sreq (Inr sreply)]"
      and got: "py_getitem sreply (PStr ''content'') = Inr resp" by blast
    from route_task_trace [OF routed] obtain req reply where
      t1: "trace st1 = trace st0 @ [LlmCall Router req reply]" by blast
    from run_strategy_trace [OF ran] obtain evs where
      t2: "trace st2 = trace st1 @ evs" and quiet: "filter is_llm_call evs = []" by blast
    obtain tail where tail: "trace st' = trace st3 @ tail" "filter is_synthesis_call tail = []"
      using tr by simp
    from t1 t2 t3 tail have "trace st' = trace st @ (TimeRead t0 # LlmCall Router req reply # evs @
        LlmCall Synthesizer sreq (Inr sreply) # tail)"
      by (simp add: emit_def st0_def)
    from new_events_append [OF this] llm_free_no_synthesis [OF quiet] tail(2)
    have "filter is_synthesis_call (new_events st st') = [LlmCall Synthesizer sreq (Inr sreply)]" by simp
    with got lookup show ?thesis by simp
  qed
qed

lemma demo_parallel_run:
  "fst (execute_task (demo_env parallel_reply (Some parallel_plan) ''Focus on your breath.'')
          ''compare my sessions'' None None None fresh)
     = Inr [(PStr ''response'', PStr ''merged answer''),
            (PStr ''strategy'', PStr ''parallel''),
            (PStr ''agents_used'', PList [PStr ''experiment_conductor'', PStr ''data_analyst'']),
            (PStr ''agent_results'',
             PDict [(PStr ''experiment_conductor'', conductor_result ''Focus on your breath.''),
                    (PStr ''data_analyst'', analyst_result)]),
            (PStr ''duration_ms'', PInt 8000),
            (PStr ''coordinated_at'', PStr ''2024-01-01T00:00:00'')]"
  by (simp add: task_defs demo_env_def fresh_def conductor_result_def parallel_plan_def analyst_result_def)

theorem synthesis_once_witness:
  "length (filter is_synthesis_call (new_events fresh
         (snd (execute_task (demo_env parallel_reply (Some parallel_plan) ''Focus on your breath.'')
                 ''compare my sessions'' None None None fresh)))) = 1
   \<and> dict_lookup (projr (fst (execute_task (demo_env parallel_reply (Some parallel_plan) ''Focus on your breath.'')
                 ''compare my sessions'' None None None fresh))) (PStr ''response'')
       = Some (PStr ''merged answer'')"
proof -
  let ?run = "execute_task (demo_env parallel_reply (Some parallel_plan) ''Focus on your breath.'')
                 ''compare my sessions'' None None None fresh"
  obtain outcome where out: "fst ?run = Inr outcome"
    and many: "dict_lookup outcome (PStr ''agent_results'')
                = Some (PDict [(PStr ''experiment_conductor'', conductor_result ''Focus on your breath.''),
                               (PStr ''data_analyst'', analyst_result)])"
    and resp: "dict_lookup outcome (PStr ''response'') = Some (PStr ''merged answer'')"
    using demo_parallel_run by (simp add: key_eq_def)
  from out have run: "?run = (Inr outcome, snd ?run)" by (cases ?run) simp
  from synthesis_once [OF run many] out resp show ?thesis by auto
qed

text \<open>
  Claim C4 as written counts the results produced. A plan that names one agent twice
  produces two results and keeps one, under the one name: no synthesis call is made and
  the response is the kept result's.
\<close>


theorem synthesis_once_counterexample:
  "fst (execute_task (demo_env duplicate_reply (Some duplicate_plan) ''ok'') ''compare my sessions''
          None None None fresh)
     = Inr [(PStr ''response'', PStr ''DataAnalyst integration pending for this task type''),
            (PStr ''strategy'', PStr ''parallel''),
            (PStr ''agents_used'', PList [PStr ''data_analyst'', PStr ''data_analyst'']),
            (PStr ''agent_results'', PDict [(PStr ''data_analyst'', analyst_result)]),
            (PStr ''duration_ms'', PInt 6000),
            (PStr ''coordinated_at'', PStr ''2024-01-01T00:00:00'')]
   \<and> filter is_return (trace (snd (execute_task (demo_env duplicate_reply (Some duplicate_plan) ''ok'')
          ''compare my sessions'' None None None fresh)))
     = [AgentReturned (PStr ''data_analyst'') (Inr analyst_result),
        AgentReturned (PStr ''data_analyst'') (Inr analyst_result)]
   \<and> filter is_synthesis_call (trace (snd (execute_task (demo_env duplicate_reply (Some duplicate_plan) ''ok'')
          ''compare my sessions'' None None None fresh)))
     = []"
  by (simp add: task_defs demo_env_def fresh_def duplicate_plan_def analyst_result_def)

subsection \<open>Dictionaries and the names invoked\<close>




lemma key_eq_trans: "key_eq a b \<Longrightarrow> key_eq b c \<Longrightarrow> key_eq a c"
  by (simp add: key_eq_def)



lemma dict_lookup_set:
  "dict_lookup (dict_set d k v) q = (if key_eq k q then Some v else dict_lookup d q)"
proof (induction d)
  case Nil
  then show ?case by simp
next
  case (Cons p d)
  obtain k' v' where p: "p = (k', v')" by (cases p)
  show ?case
    using Cons.IH by (auto simp: p key_eq_def)
qed






lemma is_not_found_agent_not_found: "is_not_found (agent_not_found env n)"
  by (simp add: is_not_found_def agent_not_found_def key_eq_def)





lemma resume_agent_result:
  assumes "resume_agent env n t u s c st = (Inr r, st')"
  shows "\<not> in_registry env n \<longrightarrow> is_not_found r"
  using assms is_not_found_agent_not_found [of env n]
  by (auto simp: resume_agent_def call_agent_body_def io_defs split: if_splits prod.splits)








subsection \<open>An agent that is not in the registry\<close>





















subsection \<open>The invocations of a sequential run\<close>

lemma agent_events_append: "agent_events (xs @ ys) = agent_events xs @ agent_events ys"
  by (simp add: agent_events_def)

lemma agent_events_quiet:
  "filter is_invocation evs = [] \<Longrightarrow> filter is_return evs = [] \<Longrightarrow> agent_events evs = []"
  by (auto simp: agent_events_def is_agent_event_def filter_empty_conv)

lemma call_agent_agent_events:
  assumes "call_agent env n t u s c st = (r, st')"
  shows "\<exists>evs. trace st' = trace st @ evs \<and> agent_events evs = [AgentCalled n t u s c, AgentReturned n r]
           \<and> invoked evs = [n]"
proof -
  from call_agent_trace [OF assms] obtain evs where
    t: "trace st' = trace st @ AgentCalled n t u s c # evs @ [AgentReturned n r]"
    and q: "filter is_invocation evs = []" "filter is_return evs = []" by blast
  from agent_events_quiet [OF q] have "agent_events evs = []" .
  then have "agent_events (AgentCalled n t u s c # evs @ [AgentReturned n r])
               = [AgentCalled n t u s c, AgentReturned n r]"
    by (simp add: agent_events_def is_agent_event_def)
  moreover have "invoked (AgentCalled n t u s c # evs @ [AgentReturned n r]) = [n]"
    using q by (simp add: invoked_def)
  ultimately show ?thesis using t by blast
qed

lemma other_items_set:
  "other_items (dict_set d (PStr ''previous_agent_output'') v) = other_items d"
  by (induction d) (auto simp: other_items_def key_eq_def)

lemma received_enhanced_context: "received ctx previous_output (Some (enhanced_context ctx previous_output))"
  by (simp add: received_def enhanced_context_def dict_lookup_set key_eq_refl other_items_set)

lemma sequential_loop_chained:
  assumes "sequential_loop env task u s ctx agent_tasks names acc st = (r, st')"
  shows "\<exists>evs. trace st' = trace st @ evs
           \<and> chained ctx u s agent_tasks task (fst acc) names (agent_events evs)"
  using assms
proof (induction names arbitrary: acc st)
  case Nil
  then have "trace st' = trace st @ []" by simp
  moreover have "chained ctx u s agent_tasks task (fst acc) [] (agent_events [])"
    by (simp add: agent_events_def)
  ultimately show ?case by blast
next
  case (Cons n names)
  obtain prev d where acc: "acc = (prev, d)" by (cases acc)
  show ?case
  proof (cases "py_get agent_tasks n (PStr task)")
    case (Inl e)
    with Cons.prems acc have "st' = st" by (simp add: sequential_step_def io_defs)
    then have "trace st' = trace st @ []" by simp
    moreover have "chained ctx u s agent_tasks task (fst acc) (n # names) (agent_events [])"
      using Inl by (simp add: agent_events_def)
    ultimately show ?thesis by blast
  next
    case (Inr t)
    note task = Inr
    obtain r1 st1 where call: "call_agent env n t u s (Some (enhanced_context ctx prev)) st = (r1, st1)"
      by (cases "call_agent env n t u s (Some (enhanced_context ctx prev)) st")
    from call_agent_agent_events [OF call] obtain evs1 where
      e1: "trace st1 = trace st @ evs1"
          "agent_events evs1 = [AgentCalled n t u s (Some (enhanced_context ctx prev)), AgentReturned n r1]"
      by blast
    show ?thesis
    proof (cases r1)
      case (Inl e)
      with Cons.prems acc task call have "st' = st1" by (simp add: sequential_step_def io_defs)
      moreover have "chained ctx u s agent_tasks task (fst acc) (n # names) (agent_events evs1)"
        using e1(2) acc Inl task by (simp add: received_enhanced_context)
      ultimately show ?thesis using e1(1) by blast
    next
      case (Inr result)
      note res = Inr
      show ?thesis
      proof (cases "py_get result (PStr ''response'') (PStr '''')")
        case (Inl e)
        with Cons.prems acc task call res have "st' = st1" by (simp add: sequential_step_def io_defs)
        moreover have "chained ctx u s agent_tasks task (fst acc) (n # names) (agent_events evs1)"
          using e1(2) acc res Inl task by (simp add: received_enhanced_context)
        ultimately show ?thesis using e1(1) by blast
      next
        case (Inr response)
        with Cons.prems acc task call res
        have rest: "sequential_loop env task u s ctx agent_tasks names (response, dict_set d n result) st1 = (r, st')"
          by (simp add: sequential_step_def io_defs)
        from Cons.IH [OF rest] obtain evs2 where
          e2: "trace st' = trace st1 @ evs2"
              "chained ctx u s agent_tasks task response names (agent_events evs2)" by auto
        have "trace st' = trace st @ (evs1 @ evs2)" using e1 e2 by simp
        moreover have "chained ctx u s agent_tasks task (fst acc) (n # names) (agent_events (evs1 @ evs2))"
          using e1(2) e2(2) acc res Inr task by (simp add: agent_events_append received_enhanced_context)
        ultimately show ?thesis by blast
      qed
    qed
  qed
qed

lemma chained_Cons:
  "chained ctx u s agent_tasks task prev (n # names) evs =
     (case py_get agent_tasks n (PStr task) of
        Inl e \<Rightarrow> evs = []
      | Inr t \<Rightarrow>
          (\<exists>c r rest. evs = AgentCalled n t u s c # AgentReturned n r # rest \<and> received ctx prev c
             \<and> (case r of
                   Inl e \<Rightarrow> rest = []
                 | Inr result \<Rightarrow>
                     (case py_get result (PStr ''response'') (PStr '''') of
                        Inl e \<Rightarrow> rest = []
                      | Inr response \<Rightarrow> chained ctx u s agent_tasks task response names rest))))"
proof (cases "py_get agent_tasks n (PStr task)")
  case (Inl e)
  then show ?thesis by simp
next
  case (Inr t)
  show ?thesis
  proof (cases evs)
    case Nil
    with Inr show ?thesis by simp
  next
    case (Cons x xs)
    note evs = Cons
    show ?thesis
    proof (cases xs)
      case Nil
      with Inr evs show ?thesis by (cases x) simp_all
    next
      case (Cons y ys)
      with Inr evs show ?thesis by (cases x; cases y) auto
    qed
  qed
qed

lemma chained_head:
  assumes "chained ctx u s agent_tasks task prev names (AgentCalled b tb ub sb cb # ys)"
  shows "received ctx prev cb"
proof (cases names)
  case Nil
  with assms show ?thesis by simp
next
  case (Cons n names')
  show ?thesis
  proof (cases "py_get agent_tasks n (PStr task)")
    case (Inl e)
    with assms Cons show ?thesis by simp
  next
    case (Inr t)
    with assms Cons obtain c r rest where
      "AgentCalled b tb ub sb cb # ys = AgentCalled n t u s c # AgentReturned n r # rest"
      "received ctx prev c"
      by (simp only: chained_Cons sum.case) blast
    then show ?thesis by simp
  qed
qed

lemma chained_adjacent:
  assumes "chained ctx u s agent_tasks task prev names (xs @ AgentReturned a ra # AgentCalled b tb ub sb cb # ys)"
  shows "\<exists>result response. ra = Inr result \<and> py_get result (PStr ''response'') (PStr '''') = Inr response
           \<and> received ctx response cb"
  using assms
proof (induction names arbitrary: prev xs)
  case Nil
  then show ?case by simp
next
  case (Cons n names)
  let ?rest = "AgentReturned a ra # AgentCalled b tb ub sb cb # ys"
  from Cons.prems obtain t where t: "py_get agent_tasks n (PStr task) = Inr t"
    by (cases "py_get agent_tasks n (PStr task)") auto
  show ?case
  proof (cases xs)
    case Nil
    with Cons.prems t show ?thesis by simp
  next
    case (Cons x xs')
    note xs = Cons
    show ?thesis
    proof (cases xs')
      case Nil
      with Cons.prems t xs obtain result response where
        a: "ra = Inr result" "py_get result (PStr ''response'') (PStr '''') = Inr response"
           "chained ctx u s agent_tasks task response names (AgentCalled b tb ub sb cb # ys)"
        by (cases x) (auto split: sum.splits)
      from chained_head [OF a(3)] a(1,2) show ?thesis by blast
    next
      case (Cons y zs)
      with Cons.prems t xs obtain response where
        "chained ctx u s agent_tasks task response names (zs @ ?rest)"
        by (cases x; cases y) (auto split: sum.splits)
      from Cons.IH [OF this] show ?thesis .
    qed
  qed
qed

lemma execute_task_state:
  "snd (execute_task env task u s ctx st) =
     snd (coordinate env task u s ctx (time_time env (trace st)) (emit (TimeRead (time_time env (trace st))) st))"
  by (simp add: execute_task_def io_defs read_time_def Let_def split: prod.splits sum.splits)

lemma coordinate_sequential_unfold:
  assumes routed: "route_task env task u ctx st0 = (Inr (PDict plan), st1)"
    and seq: "dict_get plan (PStr ''strategy'') (PStr ''single'') = PStr ''sequential''"
  shows "coordinate env task u s ctx t0 st0 =
      io_bind (run_sequential env task u s ctx (dict_get plan (PStr ''agents'') (PList []))
                 (dict_get plan (PStr ''routing'') (PDict []))) (\<lambda>agent_results.
      io_bind (final_response env task ctx agent_results) (\<lambda>response.
      io_bind count_coordination (\<lambda>_.
      io_bind (read_time env) (\<lambda>now.
      io_bind (read_utcnow env) (\<lambda>stamp.
      io_return
       [(PStr ''response'', response),
        (PStr ''strategy'', PStr ''sequential''),
        (PStr ''agents_used'', dict_get plan (PStr ''agents'') (PList [])),
        (PStr ''agent_results'', PDict agent_results),
        (PStr ''duration_ms'', PInt (elapsed_ms env t0 now)),
        (PStr ''coordinated_at'', PStr stamp)]))))) st1"
proof -
  have "coordinate env task u s ctx t0 st0 =
     (io_bind (io_lift (py_get (PDict plan) (PStr ''strategy'') (PStr ''single''))) (\<lambda>strategy.
     io_bind (io_lift (py_get (PDict plan) (PStr ''agents'') (PList []))) (\<lambda>agents_to_use.
     io_bind (io_lift (py_get (PDict plan) (PStr ''routing'') (PDict []))) (\<lambda>agent_tasks.
     io_bind (run_strategy env task u s ctx strategy agents_to_use agent_tasks)
       (\<lambda>agent_results.
     io_bind (final_response env task ctx agent_results) (\<lambda>response.
     io_bind count_coordination (\<lambda>_.
     io_bind (read_time env) (\<lambda>now.
     io_bind (read_utcnow env) (\<lambda>stamp.
     io_return
       [(PStr ''response'', response),
        (PStr ''strategy'', strategy),
        (PStr ''agents_used'', agents_to_use),
        (PStr ''agent_results'', PDict agent_results),
        (PStr ''duration_ms'', PInt (elapsed_ms env t0 now)),
        (PStr ''coordinated_at'', PStr stamp)]))))))))) st1"
    unfolding coordinate_def
    by (rule io_bind_apply_Inr [of "route_task env task u ctx" st0 "PDict plan" st1, OF routed])
  also have "\<dots> = io_bind (run_sequential env task u s ctx (dict_get plan (PStr ''agents'') (PList []))
                 (dict_get plan (PStr ''routing'') (PDict []))) (\<lambda>agent_results.
      io_bind (final_response env task ctx agent_results) (\<lambda>response.
      io_bind count_coordination (\<lambda>_.
      io_bind (read_time env) (\<lambda>now.
      io_bind (read_utcnow env) (\<lambda>stamp.
      io_return
       [(PStr ''response'', response),
        (PStr ''strategy'', PStr ''sequential''),
        (PStr ''agents_used'', dict_get plan (PStr ''agents'') (PList [])),
        (PStr ''agent_results'', PDict agent_results),
        (PStr ''duration_ms'', PInt (elapsed_ms env t0 now)),
        (PStr ''coordinated_at'', PStr stamp)]))))) st1"
    by (simp add: py_get_def io_bind_lift_Inr seq run_strategy_def)
  finally show ?thesis .
qed

lemma coordinate_tail:
  assumes fin: "final_response env task ctx results st2 = (r3, st3)"
  shows "\<exists>tail. trace (snd (
      io_bind (final_response env task ctx results) (\<lambda>response.
      io_bind count_coordination (\<lambda>_.
      io_bind (read_time env) (\<lambda>now.
      io_bind (read_utcnow env) (\<lambda>stamp.
      io_return
       [(PStr ''response'', response),
        (PStr ''strategy'', strategy),
        (PStr ''agents_used'', agents),
        (PStr ''agent_results'', PDict results),
        (PStr ''duration_ms'', PInt (elapsed_ms env t0 now)),
        (PStr ''coordinated_at'', PStr stamp)])))) st2)) = trace st2 @ tail
      \<and> agent_events tail = [] \<and> invoked tail = []"
proof -
  from final_response_quiet [OF fin] obtain syn where
    q: "trace st3 = trace st2 @ syn" "agent_events syn = []" "invoked syn = []" by blast
  show ?thesis
  proof (cases r3)
    case (Inl e)
    with fin have "snd (
      io_bind (final_response env task ctx results) (\<lambda>response.
      io_bind count_coordination (\<lambda>_.
      io_bind (read_time env) (\<lambda>now.
      io_bind (read_utcnow env) (\<lambda>stamp.
      io_return
       [(PStr ''response'', response),
        (PStr ''strategy'', strategy),
        (PStr ''agents_used'', agents),
        (PStr ''agent_results'', PDict results),
        (PStr ''duration_ms'', PInt (elapsed_ms env t0 now)),
        (PStr ''coordinated_at'', PStr stamp)])))) st2) = st3"
      by (simp add: io_bind_apply_Inl)
    with q show ?thesis by auto
  next
    case (Inr resp)
    with fin have "trace (snd (
      io_bind (final_response env task ctx results) (\<lambda>response.
      io_bind count_coordination (\<lambda>_.
      io_bind (read_time env) (\<lambda>now.
      io_bind (read_utcnow env) (\<lambda>stamp.
      io_return
       [(PStr ''response'', response),
        (PStr ''strategy'', strategy),
        (PStr ''agents_used'', agents),
        (PStr ''agent_results'', PDict results),
        (PStr ''duration_ms'', PInt (elapsed_ms env t0 now)),
        (PStr ''coordinated_at'', PStr stamp)])))) st2)) = trace st3 @
                [TimeRead (time_time env (trace st3)),
                 UtcRead (utcnow_isoformat env (trace st3 @ [TimeRead (time_time env (trace st3))]))]"
      by (simp add: io_bind_apply_Inr io_bind_def io_return_def count_coordination_def read_time_def
          read_utcnow_def emit_def Let_def)
    with q have "trace (snd (
      io_bind (final_response env task ctx results) (\<lambda>response.
      io_bind count_coordination (\<lambda>_.
      io_bind (read_time env) (\<lambda>now.
      io_bind (read_utcnow env) (\<lambda>stamp.
      io_return
       [(PStr ''response'', response),
        (PStr ''strategy'', strategy),
        (PStr ''agents_used'', agents),
        (PStr ''agent_results'', PDict results),
        (PStr ''duration_ms'', PInt (elapsed_ms env t0 now)),
        (PStr ''coordinated_at'', PStr stamp)])))) st2)) = trace st2 @ (syn @
                [TimeRead (time_time env (trace st3)),
                 UtcRead (utcnow_isoformat env (trace st3 @ [TimeRead (time_time env (trace st3))]))])"
      by simp
    moreover have "agent_events (syn @
                [TimeRead (time_time env (trace st3)),
                 UtcRead (utcnow_isoformat env (trace st3 @ [TimeRead (time_time env (trace st3))]))]) = []"
      using q(2) by (simp add: agent_events_def is_agent_event_def)
    moreover have "invoked (syn @
                [TimeRead (time_time env (trace st3)),
                 UtcRead (utcnow_isoformat env (trace st3 @ [TimeRead (time_time env (trace st3))]))]) = []"
      using q(3) by (simp add: invoked_def)
    ultimately show ?thesis by blast
  qed
qed

lemma coordinate_sequential:
  assumes routed: "route_task env task u ctx st0 = (Inr (PDict plan), st1)"
    and seq: "dict_get plan (PStr ''strategy'') (PStr ''single'') = PStr ''sequential''"
  shows "\<exists>evs tail. trace (snd (coordinate env task u s ctx t0 st0)) = trace st1 @ evs @ tail
           \<and> agent_events tail = []
           \<and> (case py_iter (dict_get plan (PStr ''agents'') (PList [])) of
                 Inl e \<Rightarrow> agent_events evs = []
               | Inr names \<Rightarrow>
                   chained ctx u s (dict_get plan (PStr ''routing'') (PDict [])) task PNone names
                     (agent_events evs))"
proof -
  define agents where "agents = dict_get plan (PStr ''agents'') (PList [])"
  define agent_tasks where "agent_tasks = dict_get plan (PStr ''routing'') (PDict [])"
  define rest where "rest = (\<lambda>agent_results.
      io_bind (final_response env task ctx agent_results) (\<lambda>response.
      io_bind count_coordination (\<lambda>_.
      io_bind (read_time env) (\<lambda>now.
      io_bind (read_utcnow env) (\<lambda>stamp.
      io_return
       [(PStr ''response'', response),
        (PStr ''strategy'', PStr ''sequential''),
        (PStr ''agents_used'', agents),
        (PStr ''agent_results'', PDict agent_results),
        (PStr ''duration_ms'', PInt (elapsed_ms env t0 now)),
        (PStr ''coordinated_at'', PStr stamp)])))))"
  have co: "coordinate env task u s ctx t0 st0
              = io_bind (run_sequential env task u s ctx agents agent_tasks) rest st1"
    unfolding rest_def agents_def agent_tasks_def
    by (rule coordinate_sequential_unfold [OF routed seq])
  show ?thesis
  proof (cases "py_iter agents")
    case (Inl e)
    then have "run_sequential env task u s ctx agents agent_tasks st1 = (Inl e, st1)"
      by (simp add: run_sequential_def io_defs)
    with co have "snd (coordinate env task u s ctx t0 st0) = st1"
      by (simp add: io_bind_apply_Inl)
    then have "trace (snd (coordinate env task u s ctx t0 st0)) = trace st1 @ [] @ []" by simp
    moreover have "agent_events [] = []" by (simp add: agent_events_def)
    moreover have "(case py_iter (dict_get plan (PStr ''agents'') (PList [])) of
                 Inl e \<Rightarrow> agent_events [] = []
               | Inr names \<Rightarrow>
                   chained ctx u s (dict_get plan (PStr ''routing'') (PDict [])) task PNone names
                     (agent_events []))"
      using Inl unfolding agents_def by (simp add: agent_events_def)
    ultimately show ?thesis by blast
  next
    case (Inr names)
    obtain r2 st2 where loop: "sequential_loop env task u s ctx agent_tasks names (PNone, []) st1 = (r2, st2)"
      by (cases "sequential_loop env task u s ctx agent_tasks names (PNone, []) st1")
    from sequential_loop_chained [OF loop] obtain evs where
      e: "trace st2 = trace st1 @ evs" "chained ctx u s agent_tasks task PNone names (agent_events evs)"
      by auto
    have names_case: "(case py_iter (dict_get plan (PStr ''agents'') (PList [])) of
                 Inl e \<Rightarrow> agent_events evs = []
               | Inr names \<Rightarrow>
                   chained ctx u s (dict_get plan (PStr ''routing'') (PDict [])) task PNone names
                     (agent_events evs))"
      using Inr e(2) unfolding agents_def agent_tasks_def by simp
    have "\<exists>tail. trace (snd (coordinate env task u s ctx t0 st0)) = trace st2 @ tail
            \<and> agent_events tail = []"
    proof (cases r2)
      case (Inl e)
      from loop Inl \<open>py_iter agents = Inr names\<close>
      have "run_sequential env task u s ctx agents agent_tasks st1 = (Inl e, st2)"
        by (simp add: run_sequential_def io_bind_lift_Inr io_bind_apply_Inl)
      with co have "snd (coordinate env task u s ctx t0 st0) = st2"
        by (simp add: io_bind_apply_Inl)
      then show ?thesis by (simp add: agent_events_def)
    next
      case (Inr acc)
      from loop Inr \<open>py_iter agents = Inr names\<close>
      have ran: "run_sequential env task u s ctx agents agent_tasks st1 = (Inr (snd acc), st2)"
        by (simp add: run_sequential_def io_bind_lift_Inr io_bind_apply_Inr io_return_def)
      with co have co2: "coordinate env task u s ctx t0 st0 = rest (snd acc) st2"
        by (simp add: io_bind_apply_Inr)
      obtain r3 st3 where fin: "final_response env task ctx (snd acc) st2 = (r3, st3)"
        by (cases "final_response env task ctx (snd acc) st2")
      from coordinate_tail [OF fin, of "PStr ''sequential''" agents t0] co2
      show ?thesis unfolding rest_def by auto
    qed
    then obtain tail where t: "trace (snd (coordinate env task u s ctx t0 st0)) = trace st2 @ tail"
      "agent_events tail = []" by blast
    from t(1) e(1) have "trace (snd (coordinate env task u s ctx t0 st0)) = trace st1 @ evs @ tail" by simp
    with t(2) names_case show ?thesis by blast
  qed
qed

text \<open>
  Claim C5, as amended. In every run under the sequential strategy the invocations are
  those of \<open>chained\<close> for the agents of the plan: every agent of the list is entered, in
  the order of the list, and each one only after the one before it has returned, up to
  the first invocation that raises. And whenever the entry of B directly follows the
  return of A, A returned a result and B received a dict of its own: with A's response
  under "previous_agent_output" and the caller's other items when the response is truthy
  (a non-empty text), and exactly the caller's items when the response is empty. What was
  stored for one agent is not there for the next: the caller's context is never written.
\<close>

theorem sequential_context_chain:
  assumes routed: "fst (route_task env task user_id ctx (snd (read_time env st))) = Inr (PDict plan)"
    and seq: "dict_get plan (PStr ''strategy'') (PStr ''single'') = PStr ''sequential''"
  shows "(case py_iter (dict_get plan (PStr ''agents'') (PList [])) of
            Inl e \<Rightarrow> agent_events (task_events env task user_id session_id ctx st) = []
          | Inr names \<Rightarrow>
              chained ctx user_id session_id (dict_get plan (PStr ''routing'') (PDict [])) task PNone names
                (agent_events (task_events env task user_id session_id ctx st)))
         \<and> (\<forall>xs a ra b tb ub sb cb ys.
               agent_events (task_events env task user_id session_id ctx st)
                 = xs @ AgentReturned a ra # AgentCalled b tb ub sb cb # ys \<longrightarrow>
               (\<exists>result response d.
                  ra = Inr result \<and> py_get result (PStr ''response'') (PStr '''') = Inr response
                  \<and> cb = Some d
                  \<and> (truthy response \<longrightarrow>
                        dict_lookup d (PStr ''previous_agent_output'') = Some response
                        \<and> other_items d = other_items (case ctx of None \<Rightarrow> [] | Some items \<Rightarrow> items))
                  \<and> (\<not> truthy response \<longrightarrow> d = (case ctx of None \<Rightarrow> [] | Some items \<Rightarrow> items))))"
proof -
  define t0 where "t0 = time_time env (trace st)"
  define st0 where "st0 = emit (TimeRead t0) st"
  have st0: "snd (read_time env st) = st0" by (simp add: read_time_def Let_def st0_def t0_def)
  obtain st1 where r: "route_task env task user_id ctx st0 = (Inr (PDict plan), st1)"
    using routed st0 by (cases "route_task env task user_id ctx st0") auto
  from route_task_trace [OF r] obtain req reply where
    t1: "trace st1 = trace st0 @ [LlmCall Router req reply]" by blast
  from coordinate_sequential [OF r seq, of session_id t0] obtain evs tail where
    c: "trace (snd (coordinate env task user_id session_id ctx t0 st0)) = trace st1 @ evs @ tail"
       "agent_events tail = []"
       "(case py_iter (dict_get plan (PStr ''agents'') (PList [])) of
                 Inl e \<Rightarrow> agent_events evs = []
               | Inr names \<Rightarrow>
                   chained ctx user_id session_id (dict_get plan (PStr ''routing'') (PDict [])) task PNone names
                     (agent_events evs))" by blast
  have "trace (snd (execute_task env task user_id session_id ctx st))
          = trace st @ (TimeRead t0 # LlmCall Router req reply # evs @ tail)"
    using c(1) t1 by (simp add: execute_task_state t0_def st0_def emit_def)
  from new_events_append [OF this]
  have new: "task_events env task user_id session_id ctx st = TimeRead t0 # LlmCall Router req reply # evs @ tail"
    by (simp add: task_events_def)
  have ae: "agent_events (task_events env task user_id session_id ctx st) = agent_events evs"
    using c(2) by (simp add: new agent_events_def is_agent_event_def)
  have shape: "(case py_iter (dict_get plan (PStr ''agents'') (PList [])) of
            Inl e \<Rightarrow> agent_events (task_events env task user_id session_id ctx st) = []
          | Inr names \<Rightarrow>
              chained ctx user_id session_id (dict_get plan (PStr ''routing'') (PDict [])) task PNone names
                (agent_events (task_events env task user_id session_id ctx st)))"
    using c(3) by (auto simp: ae split: sum.splits)
  have adjacent: "\<forall>xs a ra b tb ub sb cb ys.
               agent_events (task_events env task user_id session_id ctx st)
                 = xs @ AgentReturned a ra # AgentCalled b tb ub sb cb # ys \<longrightarrow>
               (\<exists>result response d.
                  ra = Inr result \<and> py_get result (PStr ''response'') (PStr '''') = Inr response
                  \<and> cb = Some d
                  \<and> (truthy response \<longrightarrow>
                        dict_lookup d (PStr ''previous_agent_output'') = Some response
                        \<and> other_items d = other_items (case ctx of None \<Rightarrow> [] | Some items \<Rightarrow> items))
                  \<and> (\<not> truthy response \<longrightarrow> d = (case ctx of None \<Rightarrow> [] | Some items \<Rightarrow> items)))"
  proof (intro allI impI)
    fix xs a ra b tb ub sb cb ys
    assume split: "agent_events (task_events env task user_id session_id ctx st)
                 = xs @ AgentReturned a ra # AgentCalled b tb ub sb cb # ys"
    show "\<exists>result response d.
                  ra = Inr result \<and> py_get result (PStr ''response'') (PStr '''') = Inr response
                  \<and> cb = Some d
                  \<and> (truthy response \<longrightarrow>
                        dict_lookup d (PStr ''previous_agent_output'') = Some response
                        \<and> other_items d = other_items (case ctx of None \<Rightarrow> [] | Some items \<Rightarrow> items))
                  \<and> (\<not> truthy response \<longrightarrow> d = (case ctx of None \<Rightarrow> [] | Some items \<Rightarrow> items))"
    proof (cases "py_iter (dict_get plan (PStr ''agents'') (PList []))")
      case (Inl e)
      with shape split show ?thesis by simp
    next
      case (Inr names)
      with shape split
      have "chained ctx user_id session_id (dict_get plan (PStr ''routing'') (PDict [])) task PNone names
              (xs @ AgentReturned a ra # AgentCalled b tb ub sb cb # ys)" by simp
      from chained_adjacent [OF this] obtain result response where
        got: "ra = Inr result" "py_get result (PStr ''response'') (PStr '''') = Inr response"
        and rec: "received ctx response cb" by blast
      from rec obtain d where d: "cb = Some d" by (cases cb) (auto simp: received_def)
      with rec have "(truthy response \<longrightarrow>
                        dict_lookup d (PStr ''previous_agent_output'') = Some response
                        \<and> other_items d = other_items (case ctx of None \<Rightarrow> [] | Some items \<Rightarrow> items))
                  \<and> (\<not> truthy response \<longrightarrow> d = (case ctx of None \<Rightarrow> [] | Some items \<Rightarrow> items))"
        by (simp add: received_def)
      with got d show ?thesis by blast
    qed
  qed
  from shape adjacent show ?thesis by (intro conjI)
qed

lemma demo_sequential_events:
  "agent_events (task_events (demo_env sequential_reply (Some sequential_plan) answer) ''compare my sessions''
                   None None (Some telepathy_context) fresh)
     = [AgentCalled (PStr ''experiment_conductor'') (PStr ''compare my sessions'') None None
          (Some telepathy_context),
        AgentReturned (PStr ''experiment_conductor'') (Inr (conductor_result answer)),
        AgentCalled (PStr ''data_analyst'') (PStr ''compare my sessions'') None None
          (Some (if answer = [] then telepathy_context
                 else telepathy_context @ [(PStr ''previous_agent_output'', PStr answer)])),
        AgentReturned (PStr ''data_analyst'') (Inr analyst_result)]"
  by (simp add: task_events_def new_events_def agent_events_def is_agent_event_def task_defs demo_env_def
      fresh_def sequential_plan_def conductor_result_def analyst_result_def telepathy_context_def)

lemma demo_route_sequential:
  "fst (route_task (demo_env sequential_reply (Some sequential_plan) answer) ''compare my sessions'' None
          (Some telepathy_context)
          (snd (read_time (demo_env sequential_reply (Some sequential_plan) answer) fresh)))
     = Inr sequential_plan"
  by (simp add: route_task_unfold demo_env_def routing_request_def py_getitem_def key_eq_def)

theorem sequential_context_chain_witness:
  "chained (Some telepathy_context) None None (PDict []) ''compare my sessions'' PNone
     [PStr ''experiment_conductor'', PStr ''data_analyst'']
     (agent_events (task_events (demo_env sequential_reply (Some sequential_plan) ''Focus on your breath.'')
                      ''compare my sessions'' None None (Some telepathy_context) fresh))
   \<and> agent_events (task_events (demo_env sequential_reply (Some sequential_plan) ''Focus on your breath.'')
                      ''compare my sessions'' None None (Some telepathy_context) fresh)
     = [AgentCalled (PStr ''experiment_conductor'') (PStr ''compare my sessions'') None None
          (Some [(PStr ''experiment_type'', PStr ''telepathy'')]),
        AgentReturned (PStr ''experiment_conductor'') (Inr (conductor_result ''Focus on your breath.'')),
        AgentCalled (PStr ''data_analyst'') (PStr ''compare my sessions'') None None
          (Some [(PStr ''experiment_type'', PStr ''telepathy''),
                 (PStr ''previous_agent_output'', PStr ''Focus on your breath.'')]),
        AgentReturned (PStr ''data_analyst'') (Inr analyst_result)]"
proof -
  let ?env = "demo_env sequential_reply (Some sequential_plan) ''Focus on your breath.''"
  let ?plan = "[(PStr ''strategy'', PStr ''sequential''),
                (PStr ''agents'', PList [PStr ''experiment_conductor'', PStr ''data_analyst''])]"
  have routed: "fst (route_task ?env ''compare my sessions'' None (Some telepathy_context)
                       (snd (read_time ?env fresh)))
                  = Inr (PDict ?plan)"
    using demo_route_sequential [of "''Focus on your breath.''"] by (simp add: sequential_plan_def)
  have seq: "dict_get ?plan (PStr ''strategy'') (PStr ''single'') = PStr ''sequential''"
    by (simp add: dict_get_def key_eq_def)
  have names: "py_iter (dict_get ?plan (PStr ''agents'') (PList []))
                 = Inr [PStr ''experiment_conductor'', PStr ''data_analyst'']"
    and tasks: "dict_get ?plan (PStr ''routing'') (PDict []) = PDict []"
    by (simp_all add: dict_get_def key_eq_def)
  from sequential_context_chain [OF routed seq, of None] names tasks
  have "chained (Some telepathy_context) None None (PDict []) ''compare my sessions'' PNone
     [PStr ''experiment_conductor'', PStr ''data_analyst'']
     (agent_events (task_events ?env ''compare my sessions'' None None (Some telepathy_context) fresh))"
    by simp
  with demo_sequential_events [of "''Focus on your breath.''"] show ?thesis
    by (simp add: telepathy_context_def)
qed

text \<open>
  The same two agents under the parallel strategy: the conductor is entered and waits for
  its answer, the analyst is entered and returns meanwhile, then the conductor returns.
  These invocations are not chained: the property tells the sequential loop from the
  parallel branch.
\<close>

lemma parallel_invocations_overlap:
  "agent_events (task_events (demo_env parallel_reply (Some parallel_plan) ''Focus on your breath.'')
                   ''compare my sessions'' None None (Some telepathy_context) fresh)
     = [AgentCalled (PStr ''experiment_conductor'') (PStr ''compare my sessions'') None None
          (Some telepathy_context),
        AgentCalled (PStr ''data_analyst'') (PStr ''compare my sessions'') None None
          (Some telepathy_context),
        AgentReturned (PStr ''data_analyst'') (Inr analyst_result),
        AgentReturned (PStr ''experiment_conductor'') (Inr (conductor_result ''Focus on your breath.''))]
   \<and> \<not> chained (Some telepathy_context) None None (PDict []) ''compare my sessions'' PNone
         [PStr ''experiment_conductor'', PStr ''data_analyst'']
         (agent_events (task_events (demo_env parallel_reply (Some parallel_plan) ''Focus on your breath.'')
                   ''compare my sessions'' None None (Some telepathy_context) fresh))"
proof -
  have ev: "agent_events (task_events (demo_env parallel_reply (Some parallel_plan) ''Focus on your breath.'')
                   ''compare my sessions'' None None (Some telepathy_context) fresh)
     = [AgentCalled (PStr ''experiment_conductor'') (PStr ''compare my sessions'') None None
          (Some telepathy_context),
        AgentCalled (PStr ''data_analyst'') (PStr ''compare my sessions'') None None
          (Some telepathy_context),
        AgentReturned (PStr ''data_analyst'') (Inr analyst_result),
        AgentReturned (PStr ''experiment_conductor'') (Inr (conductor_result ''Focus on your breath.''))]"
    by (simp add: task_events_def new_events_def agent_events_def is_agent_event_def task_defs demo_env_def
        fresh_def parallel_plan_def conductor_result_def analyst_result_def telepathy_context_def)
  show ?thesis unfolding ev by (simp add: py_get_def)
qed

text \<open>
  Claim C5 as written fails when A's response is the empty text, which the conductor
  returns when the backend's completion is empty: \<^verbatim>\<open>if previous_output:\<close> skips the
  injection, and B receives the caller's context without the key "previous_agent_output".
\<close>

theorem sequential_context_counterexample:
  "agent_events (task_events (demo_env sequential_reply (Some sequential_plan) '''') ''compare my sessions''
                   None None (Some telepathy_context) fresh)
     = [AgentCalled (PStr ''experiment_conductor'') (PStr ''compare my sessions'') None None
          (Some telepathy_context),
        AgentReturned (PStr ''experiment_conductor'') (Inr (conductor_result '''')),
        AgentCalled (PStr ''data_analyst'') (PStr ''compare my sessions'') None None
          (Some telepathy_context),
        AgentReturned (PStr ''data_analyst'') (Inr analyst_result)]
   \<and> py_get (conductor_result '''') (PStr ''response'') (PStr ''none'') = Inr (PStr '''')
   \<and> dict_lookup telepathy_context (PStr ''previous_agent_output'') = None"
  using demo_sequential_events [of "''''"]
  by (simp add: conductor_result_def py_get_def dict_get_def key_eq_def telepathy_context_def)

section \<open>Properties of execute_workflow\<close>

lemmas run_defs = execute_workflow_steps_def io_defs read_time_def read_utcnow_def emit_def Let_def
  initial_loop_state_def run_step_def attempt_step_def dispatch_step_def dict_item_def py_getitem_def
  key_eq_def execute_ai_scoring_def success_entry_def merge_output_def execute_guidance_step_def
  dict_get_def default_agent_def provide_guidance_def py_get_def fail_step_def error_entry_def
  workflow_result_def execute_data_capture_def

subsection \<open>Status and step count\<close>

text \<open>
  Claim C8. Whenever the executor returns, its status is "completed" exactly when
  \<open>steps_completed\<close> equals \<open>total_steps\<close>, the number of steps of the template, and
  "failed" otherwise; on the empty template it returns "completed" with no step completed.
\<close>

theorem workflow_completed_iff:
  "(execute_workflow_steps env steps template_id user_id initial_data st = (Inr res, st') \<longrightarrow>
      dict_lookup res (PStr ''total_steps'') = Some (PInt (int (length steps))) \<and>
      (dict_lookup res (PStr ''status'') = Some (PStr ''completed'')
         \<longleftrightarrow> dict_lookup res (PStr ''steps_completed'') = dict_lookup res (PStr ''total_steps'')) \<and>
      (dict_lookup res (PStr ''status'') = Some (PStr ''failed'')
         \<longleftrightarrow> dict_lookup res (PStr ''steps_completed'') \<noteq> dict_lookup res (PStr ''total_steps'')))
   \<and> (\<exists>res0 st0. execute_workflow_steps env [] template_id user_id initial_data st = (Inr res0, st0)
          \<and> dict_lookup res0 (PStr ''status'') = Some (PStr ''completed'')
          \<and> dict_lookup res0 (PStr ''steps_completed'') = Some (PInt 0)
          \<and> dict_lookup res0 (PStr ''total_steps'') = Some (PInt 0))"
  by (auto simp: execute_workflow_steps_def io_defs read_time_def Let_def workflow_result_def key_eq_def
      initial_loop_state_def split: sum.splits prod.splits)

lemma demo_run:
  "fst (execute_workflow_steps (demo_env [] None ''relax'') demo_steps ''T'' ''u'' None fresh) = Inr demo_result"
  by (simp add: demo_steps_def demo_env_def fresh_def run_defs demo_result_def)

theorem workflow_completed_witness:
  "dict_lookup demo_result (PStr ''status'') = Some (PStr ''failed'')
   \<and> dict_lookup demo_result (PStr ''steps_completed'') \<noteq> dict_lookup demo_result (PStr ''total_steps'')"
proof -
  obtain st' where run:
    "execute_workflow_steps (demo_env [] None ''relax'') demo_steps ''T'' ''u'' None fresh = (Inr demo_result, st')"
    using demo_run
    by (cases "execute_workflow_steps (demo_env [] None ''relax'') demo_steps ''T'' ''u'' None fresh") auto
  have differ: "dict_lookup demo_result (PStr ''steps_completed'') \<noteq> dict_lookup demo_result (PStr ''total_steps'')"
    by (simp add: demo_result_def key_eq_def)
  from workflow_completed_iff [of "demo_env [] None ''relax''" demo_steps "''T''" "''u''" None fresh demo_result st']
    run differ
  show ?thesis by blast
qed

subsection \<open>One pass, and the loop\<close>

lemma run_step_unfold:
  "run_step env uid step ls st =
     (case attempt_step env uid step (time_time env (trace st)) (collected_data ls)
             (emit (TimeRead (time_time env (trace st))) st) of
        (Inl e, st1) \<Rightarrow> fail_step env step e ls st1
      | (Inr (result, entry), st1) \<Rightarrow>
          (case merge_output (collected_data ls) result of
             Inl e \<Rightarrow> fail_step env step e (ls\<lparr>execution_log := execution_log ls @ [entry]\<rparr>) st1
           | Inr data \<Rightarrow>
               (Inr (Continue (ls\<lparr>execution_log := execution_log ls @ [entry],
                                   collected_data := data,
                                   current_step := current_step ls + 1\<rparr>)), st1)))"
  by (simp add: run_step_def io_defs read_time_def Let_def split: prod.splits sum.splits)

lemma dispatch_output_data:
  assumes "dispatch_step env uid step data st = (Inr result, st')"
  shows "\<exists>merged. merge_output data' result = Inr merged"
  using assms
  by (auto simp: dispatch_step_def io_defs execute_target_generation_def execute_guidance_step_def
      execute_data_capture_def execute_ai_scoring_def execute_blockchain_commit_def
      read_time_def read_utcnow_def provide_guidance_def Let_def merge_output_def key_eq_def
      py_get_def
      split: sum.splits if_splits pyval.splits prod.splits)

lemma success_entry_shape:
  assumes "success_entry env step result start st = (Inr entry, st')"
  shows "is_success_entry step entry"
  using assms
  by (auto simp: success_entry_def io_defs read_time_def read_utcnow_def Let_def is_success_entry_def
      dict_item_def py_getitem_def key_eq_def split: sum.splits option.splits)

lemma attempt_step_success:
  assumes "attempt_step env uid step start data st = (Inr (result, entry), st')"
  shows "is_success_entry step entry \<and> (\<exists>merged. merge_output data' result = Inr merged)"
proof -
  from assms obtain st1 where d: "dispatch_step env uid step data st = (Inr result, st1)"
    and e: "success_entry env step result start st1 = (Inr entry, st')"
    by (auto simp: attempt_step_def io_defs split: sum.splits prod.splits)
  from success_entry_shape [OF e] dispatch_output_data [OF d] show ?thesis by blast
qed

lemma error_entry_shape:
  assumes "error_entry env step e st = (Inr entry, st')"
  shows "is_failure_entry step entry"
  using assms
  by (auto simp: error_entry_def io_defs read_utcnow_def Let_def is_failure_entry_def
      dict_item_def py_getitem_def key_eq_def split: sum.splits option.splits)

lemma success_entry_result:
  assumes "success_entry env step result start st = (Inr entry, st')"
  shows "has_result entry \<and> (\<forall>data merged. merge_output data result = Inr merged \<longrightarrow> merge_entry data entry = merged)"
  using assms
  by (auto simp: success_entry_def io_defs read_time_def read_utcnow_def Let_def has_result_def
      merge_entry_def key_eq_def split: sum.splits)

lemma failure_entry_no_result:
  "is_failure_entry step entry \<Longrightarrow> \<not> has_result entry \<and> merge_entry data entry = data"
proof -
  assume f: "is_failure_entry step entry"
  then obtain d where d: "entry = PDict d"
    and keys: "map fst d = [PStr ''step_order'', PStr ''step_name'', PStr ''error'', PStr ''timestamp'']"
    by (cases entry) (auto simp: is_failure_entry_def)
  from keys obtain a b c e where "d = [(PStr ''step_order'', a), (PStr ''step_name'', b),
      (PStr ''error'', c), (PStr ''timestamp'', e)]"
    by (auto simp: map_eq_Cons_conv)
  then have "dict_lookup d (PStr ''result'') = None" by (simp add: key_eq_def)
  with d show ?thesis by (simp add: has_result_def merge_entry_def)
qed

lemma run_step_cases:
  assumes "run_step env uid step ls st = (Inr flow, st')"
  shows "(\<exists>entry. is_success_entry step entry \<and> has_result entry
            \<and> flow = Continue (ls\<lparr>execution_log := execution_log ls @ [entry],
                                   collected_data := merge_entry (collected_data ls) entry,
                                   current_step := current_step ls + 1\<rparr>))
         \<or> (\<exists>entry. is_failure_entry step entry
            \<and> flow = Break (ls\<lparr>execution_log := execution_log ls @ [entry]\<rparr>))"
proof -
  let ?start = "time_time env (trace st)"
  let ?st0 = "emit (TimeRead ?start) st"
  obtain r1 st1 where a: "attempt_step env uid step ?start (collected_data ls) ?st0 = (r1, st1)"
    by (cases "attempt_step env uid step ?start (collected_data ls) ?st0")
  show ?thesis
  proof (cases r1)
    case (Inl e)
    with assms a have "fail_step env step e ls st1 = (Inr flow, st')" by (simp add: run_step_unfold)
    then obtain entry st2 where "error_entry env step e st1 = (Inr entry, st2)"
      and "flow = Break (ls\<lparr>execution_log := execution_log ls @ [entry]\<rparr>)"
      by (auto simp: fail_step_def io_defs split: sum.splits prod.splits)
    with error_entry_shape show ?thesis by blast
  next
    case (Inr pair)
    obtain result entry where pair: "pair = (result, entry)" by (cases pair)
    from a Inr pair obtain st_d where d: "dispatch_step env uid step (collected_data ls) ?st0 = (Inr result, st_d)"
      and e: "success_entry env step result ?start st_d = (Inr entry, st1)"
      by (auto simp: attempt_step_def io_defs split: sum.splits prod.splits)
    from dispatch_output_data [OF d] obtain merged where m: "merge_output (collected_data ls) result = Inr merged"
      by blast
    from success_entry_result [OF e] m have hr: "has_result entry"
      and me: "merge_entry (collected_data ls) entry = merged" by auto
    from assms a Inr pair m me
    have "flow = Continue (ls\<lparr>execution_log := execution_log ls @ [entry],
                                   collected_data := merge_entry (collected_data ls) entry,
                                   current_step := current_step ls + 1\<rparr>)"
      by (simp add: run_step_unfold)
    with success_entry_shape [OF e] hr show ?thesis by blast
  qed
qed

lemma run_steps_log:
  assumes "run_steps env uid steps ls st = (Inr ls', st')"
  shows "\<exists>entries. execution_log ls' = execution_log ls @ entries \<and> logged steps entries
           \<and> current_step ls' = current_step ls + int (length (filter has_result entries))
           \<and> collected_data ls' = foldl merge_entry (collected_data ls) entries
           \<and> length entries \<le> length steps
           \<and> (length (filter has_result entries) = length steps \<longrightarrow> length entries = length steps)
           \<and> (length (filter has_result entries) < length steps \<longrightarrow>
                 length entries = Suc (length (filter has_result entries)))"
  using assms
proof (induction steps arbitrary: ls st)
  case Nil
  then show ?case by simp
next
  case (Cons step steps)
  obtain r1 st1 where s: "run_step env uid step ls st = (r1, st1)" by (cases "run_step env uid step ls st")
  from Cons.prems s obtain flow where r1: "r1 = Inr flow" by (cases r1) auto
  from run_step_cases [of env uid step ls st flow st1] s r1
  consider (ok) entry where "is_success_entry step entry" "has_result entry"
      "flow = Continue (ls\<lparr>execution_log := execution_log ls @ [entry],
                           collected_data := merge_entry (collected_data ls) entry,
                           current_step := current_step ls + 1\<rparr>)"
    | (failed) entry where "is_failure_entry step entry"
      "flow = Break (ls\<lparr>execution_log := execution_log ls @ [entry]\<rparr>)"
    by blast
  then show ?case
  proof cases
    case ok
    let ?ls1 = "ls\<lparr>execution_log := execution_log ls @ [entry],
                           collected_data := merge_entry (collected_data ls) entry,
                           current_step := current_step ls + 1\<rparr>"
    from Cons.prems s r1 ok(3) have rest: "run_steps env uid steps ?ls1 st1 = (Inr ls', st')" by simp
    from Cons.IH [OF rest] obtain entries where
      e: "execution_log ls' = execution_log ?ls1 @ entries" "logged steps entries"
         "current_step ls' = current_step ?ls1 + int (length (filter has_result entries))"
         "collected_data ls' = foldl merge_entry (collected_data ?ls1) entries"
         "length entries \<le> length steps"
         "length (filter has_result entries) = length steps \<longrightarrow> length entries = length steps"
         "length (filter has_result entries) < length steps \<longrightarrow>
                 length entries = Suc (length (filter has_result entries))"
      by blast
    have "execution_log ls' = execution_log ls @ (entry # entries)" using e(1) by simp
    moreover have "logged (step # steps) (entry # entries)" using ok(1) e(2) by simp
    moreover have "current_step ls' = current_step ls + int (length (filter has_result (entry # entries)))"
      using e(3) ok(2) by simp
    moreover have "collected_data ls' = foldl merge_entry (collected_data ls) (entry # entries)"
      using e(4) by simp
    moreover have "length (entry # entries) \<le> length (step # steps)" using e(5) by simp
    moreover have "length (filter has_result (entry # entries)) = length (step # steps)
                     \<longrightarrow> length (entry # entries) = length (step # steps)"
      using e(6) ok(2) by simp
    moreover have "length (filter has_result (entry # entries)) < length (step # steps) \<longrightarrow>
                 length (entry # entries) = Suc (length (filter has_result (entry # entries)))"
      using e(7) ok(2) by simp
    ultimately show ?thesis by blast
  next
    case failed
    from Cons.prems s r1 failed(2) have ls': "ls' = ls\<lparr>execution_log := execution_log ls @ [entry]\<rparr>"
      by simp
    from failure_entry_no_result [OF failed(1)] have nr: "\<not> has_result entry"
      and id: "merge_entry (collected_data ls) entry = collected_data ls" by auto
    have "execution_log ls' = execution_log ls @ [entry]" using ls' by simp
    moreover have "logged (step # steps) [entry]" using failed(1) by simp
    moreover have "current_step ls' = current_step ls + int (length (filter has_result [entry]))"
      using ls' nr by simp
    moreover have "collected_data ls' = foldl merge_entry (collected_data ls) [entry]"
      using ls' id by simp
    moreover have "length [entry] \<le> length (step # steps)" by simp
    moreover have "length (filter has_result [entry]) = length (step # steps)
                     \<longrightarrow> length [entry] = length (step # steps)" using nr by simp
    moreover have "length (filter has_result [entry]) < length (step # steps) \<longrightarrow>
                 length [entry] = Suc (length (filter has_result [entry]))" using nr by simp
    ultimately show ?thesis by blast
  qed
qed

lemma run_steps_append:
  "run_steps env uid (pre @ post) ls st =
     (case run_steps env uid pre ls st of
        (Inl e, st1) \<Rightarrow> (Inl e, st1)
      | (Inr ls1, st1) \<Rightarrow>
          if current_step ls1 = current_step ls + int (length pre)
          then run_steps env uid post ls1 st1
          else (Inr ls1, st1))"
proof (induction pre arbitrary: ls st)
  case Nil
  then show ?case by simp
next
  case (Cons step pre)
  obtain r1 st1 where s: "run_step env uid step ls st = (r1, st1)" by (cases "run_step env uid step ls st")
  show ?case
  proof (cases r1)
    case (Inl e)
    with s show ?thesis by simp
  next
    case (Inr flow)
    from run_step_cases [of env uid step ls st flow st1] s Inr
    consider (ok) ls1 where "flow = Continue ls1" "current_step ls1 = current_step ls + 1"
      | (failed) ls1 where "flow = Break ls1" "current_step ls1 = current_step ls"
      by auto
    then show ?thesis
    proof cases
      case ok
      with s Inr Cons.IH [of ls1 st1] show ?thesis
        by (auto split: prod.splits sum.splits)
    next
      case failed
      with s Inr show ?thesis by simp
    qed
  qed
qed

lemma execute_workflow_steps_unfold:
  "execute_workflow_steps env steps template_id user_id initial_data st =
     (case run_steps env user_id steps (initial_loop_state initial_data) (snd (read_time env st)) of
        (Inl e, st1) \<Rightarrow> (Inl e, st1)
      | (Inr ls, st1) \<Rightarrow>
          (Inr (workflow_result env steps template_id user_id (time_time env (trace st)) ls
                  (time_time env (trace st1))),
           emit (TimeRead (time_time env (trace st1))) st1))"
  by (simp add: execute_workflow_steps_def io_defs read_time_def Let_def split: prod.splits sum.splits)

subsection \<open>Fail-fast\<close>



subsection \<open>The execution log\<close>

text \<open>
  Claim C9, as amended. Whenever the executor returns, its log holds exactly one entry per
  attempted step, in the order of the steps (\<open>logged\<close>): as many entries as steps completed,
  and one more, the last, when a step raised. Every entry carries the step's order, the
  step's name, a timestamp and either a result or an error; the entry of a step that
  returned also carries the step's type and a duration. Entries are only appended: the
  log as it stood after any first part of the steps is the beginning of the final log.
\<close>

theorem execution_log_entries:
  assumes run: "execute_workflow_steps env steps template_id user_id initial_data st = (Inr res, st')"
  shows "\<exists>entries.
           dict_lookup res (PStr ''execution_log'') = Some (PList entries)
           \<and> logged steps entries
           \<and> dict_lookup res (PStr ''steps_completed'') = Some (PInt (int (length (filter has_result entries))))
           \<and> (length (filter has_result entries) = length steps \<longrightarrow> length entries = length steps)
           \<and> (length (filter has_result entries) < length steps \<longrightarrow>
                 length entries = Suc (length (filter has_result entries)))
           \<and> (\<forall>pre post ls1 st1.
                 steps = pre @ post \<and>
                 run_steps env user_id pre (initial_loop_state initial_data) (snd (read_time env st))
                   = (Inr ls1, st1) \<longrightarrow>
                 (\<exists>later. entries = execution_log ls1 @ later))"
proof -
  let ?ls0 = "initial_loop_state initial_data"
  let ?st0 = "snd (read_time env st)"
  from run obtain ls st1 where loop: "run_steps env user_id steps ?ls0 ?st0 = (Inr ls, st1)"
    and res: "res = workflow_result env steps template_id user_id (time_time env (trace st)) ls
                      (time_time env (trace st1))"
    by (auto simp: execute_workflow_steps_unfold split: prod.splits sum.splits)
  from run_steps_log [OF loop] obtain entries where
    e: "execution_log ls = execution_log ?ls0 @ entries" "logged steps entries"
       "current_step ls = current_step ?ls0 + int (length (filter has_result entries))"
       "length (filter has_result entries) = length steps \<longrightarrow> length entries = length steps"
       "length (filter has_result entries) < length steps \<longrightarrow>
                 length entries = Suc (length (filter has_result entries))"
    by blast
  have log: "execution_log ls = entries" using e(1) by (simp add: initial_loop_state_def)
  have cur: "current_step ls = int (length (filter has_result entries))"
    using e(3) by (simp add: initial_loop_state_def)
  have l1: "dict_lookup res (PStr ''execution_log'') = Some (PList entries)"
    using log by (simp add: res workflow_result_def key_eq_def)
  have l2: "dict_lookup res (PStr ''steps_completed'') = Some (PInt (int (length (filter has_result entries))))"
    using cur by (simp add: res workflow_result_def key_eq_def)
  have grow: "\<forall>pre post ls1 st1.
                 steps = pre @ post \<and> run_steps env user_id pre ?ls0 ?st0 = (Inr ls1, st1) \<longrightarrow>
                 (\<exists>later. entries = execution_log ls1 @ later)"
  proof (intro allI impI)
    fix pre post lsp stp
    assume h: "steps = pre @ post \<and> run_steps env user_id pre ?ls0 ?st0 = (Inr lsp, stp)"
    show "\<exists>later. entries = execution_log lsp @ later"
    proof (cases "current_step lsp = current_step ?ls0 + int (length pre)")
      case True
      with h loop have "run_steps env user_id post lsp stp = (Inr ls, st1)"
        by (simp add: run_steps_append)
      from run_steps_log [OF this] log show ?thesis by auto
    next
      case False
      with h loop have "ls = lsp" by (simp add: run_steps_append)
      with log show ?thesis by simp
    qed
  qed
  from l1 l2 e(2) e(4) e(5) grow show ?thesis by blast
qed

theorem execution_log_entries_witness:
  "\<exists>entries. dict_lookup demo_result (PStr ''execution_log'') = Some (PList entries)
      \<and> logged demo_steps entries \<and> length entries = 3"
proof -
  obtain st' where run:
    "execute_workflow_steps (demo_env [] None ''relax'') demo_steps ''T'' ''u'' None fresh = (Inr demo_result, st')"
    using demo_run
    by (cases "execute_workflow_steps (demo_env [] None ''relax'') demo_steps ''T'' ''u'' None fresh") auto
  from execution_log_entries [OF run] obtain entries where
    e: "dict_lookup demo_result (PStr ''execution_log'') = Some (PList entries)" "logged demo_steps entries"
    by blast
  from e(1) have "length entries = 3" by (auto simp: demo_result_def key_eq_def)
  with e show ?thesis by blast
qed

text \<open>
  Claim C9 as written fails on the entry of a step that raised: it carries neither the
  step's type nor a duration.
\<close>

theorem execution_log_entries_counterexample:
  "fst (execute_workflow_steps (demo_env [] None ''relax'') demo_steps ''T'' ''u'' None fresh) = Inr demo_result
   \<and> (case dict_lookup demo_result (PStr ''execution_log'') of
         Some (PList entries) \<Rightarrow> last entries = PDict demo_failure_entry
       | _ \<Rightarrow> False)
   \<and> dict_lookup demo_failure_entry (PStr ''step_type'') = None
   \<and> dict_lookup demo_failure_entry (PStr ''duration_ms'') = None"
  using demo_run by (simp add: demo_result_def demo_failure_entry_def key_eq_def)

end
